theory Spec2Isabelle
  imports Complex_Main "HOL-Library.Multiset"
begin

section \<open>The aggregation, cache and synthesis pipeline of \<^verbatim>\<open>src/server/index.js\<close>\<close>

text \<open>
  The Express server of the repository keeps one in-memory cache (\<^verbatim>\<open>searchCache\<close>) and
  offers two operations: \<^verbatim>\<open>POST /api/curate\<close>, built on \<^verbatim>\<open>searchTavily\<close>, and
  \<^verbatim>\<open>POST /api/plan\<close>, built on \<^verbatim>\<open>generateStudyPlan\<close>. Both query a search provider
  twice, invoke a generative model and parse its answer as JSON.

  The embedding makes every effect explicit. The cache is a map passed in and returned.
  The outside world of one call (the provider, the model, the clock and the library
  parsers) is a record of functions, the environment. A thrown exception is the left
  summand of a sum type. Every call also returns the list of outbound requests it made,
  in order, so that "no provider is queried" is a statement about that list.
\<close>

subsection \<open>Strings\<close>

text \<open>
  A JavaScript string is a sequence of UTF-16 code units. The model covers strings whose
  code units are below 256 (Latin-1), one \<^typ>\<open>char\<close> per code unit. On that range
  \<^verbatim>\<open>toLowerCase\<close> adds 32 to \<^verbatim>\<open>A-Z\<close> and to the accented capitals
  \<^verbatim>\<open>0xC0 .. 0xDE\<close> other than the multiplication sign \<^verbatim>\<open>0xD7\<close>, and the white space
  removed by \<^verbatim>\<open>trim\<close> and matched by \<^verbatim>\<open>\s\<close> is tab, line feed, vertical tab, form feed,
  carriage return, space and the no-break space.
\<close>

definition toLowerCase_char :: "char \<Rightarrow> char" where
  "toLowerCase_char c =
     (let n = (of_char c :: nat)
      in if (65 \<le> n \<and> n \<le> 90) \<or> (192 \<le> n \<and> n \<le> 222 \<and> n \<noteq> 215)
         then char_of (n + 32) else c)"

definition toLowerCase :: "string \<Rightarrow> string" where
  "toLowerCase s = map toLowerCase_char s"

definition isWhiteSpace :: "char \<Rightarrow> bool" where
  "isWhiteSpace c = ((of_char c :: nat) \<in> {9, 10, 11, 12, 13, 32, 160})"

definition trim :: "string \<Rightarrow> string" where
  "trim s = rev (dropWhile isWhiteSpace (rev (dropWhile isWhiteSpace s)))"

text \<open>\<^verbatim>\<open>s.includes(t)\<close>: \<^verbatim>\<open>t\<close> occurs in \<^verbatim>\<open>s\<close> as a contiguous piece.\<close>

fun includes_js :: "string \<Rightarrow> string \<Rightarrow> bool" where
  "includes_js [] t = (t = [])"
| "includes_js (c # s) t = (take (length t) (c # s) = t \<or> includes_js s t)"

text \<open>\<^verbatim>\<open>s.substring(0, n)\<close> and \<^verbatim>\<open>parts.join(sep)\<close>.\<close>

definition substring0 :: "nat \<Rightarrow> string \<Rightarrow> string" where
  "substring0 n s = take n s"

fun join :: "string \<Rightarrow> string list \<Rightarrow> string" where
  "join sep [] = []"
| "join sep [x] = x"
| "join sep (x # y # ys) = x @ sep @ join sep (y # ys)"

text \<open>A boolean inside a template literal prints as \<^verbatim>\<open>true\<close> or \<^verbatim>\<open>false\<close>.\<close>

definition string_of_bool :: "bool \<Rightarrow> string" where
  "string_of_bool b = (if b then ''true'' else ''false'')"

text \<open>
  \<^verbatim>\<open>text.replace(/```json\s*|\s*```/g, '')\<close>. The scan tries, at each position, the first
  alternative (the opening fence with the white space after it) and then the second
  (white space followed by a fence); where neither matches the character is kept.
\<close>

function strip_fences :: "string \<Rightarrow> string" where
  "strip_fences [] = []"
| "strip_fences (c # s) =
     (if take 7 (c # s) = ''```json'' then strip_fences (dropWhile isWhiteSpace (drop 7 (c # s)))
      else if take 3 (dropWhile isWhiteSpace (c # s)) = ''```''
           then strip_fences (drop 3 (dropWhile isWhiteSpace (c # s)))
      else c # strip_fences s)"
  by pat_completeness auto
termination
proof (relation "measure length")
  show "wf (measure length)" by simp
next
  fix c :: char and s :: string
  assume "take 7 (c # s) = ''```json''"
  have "length (dropWhile isWhiteSpace (drop 7 (c # s))) \<le> length (drop 7 (c # s))"
    by (rule length_dropWhile_le)
  then show "(dropWhile isWhiteSpace (drop 7 (c # s)), c # s) \<in> measure length"
    by simp
next
  fix c :: char and s :: string
  assume "take 3 (dropWhile isWhiteSpace (c # s)) = ''```''"
  have "length (dropWhile isWhiteSpace (c # s)) \<le> length (c # s)"
    by (rule length_dropWhile_le)
  then show "(drop 3 (dropWhile isWhiteSpace (c # s)), c # s) \<in> measure length"
    by simp
next
  fix c :: char and s :: string
  show "(s, c # s) \<in> measure length" by simp
qed

subsection \<open>Numbers\<close>

text \<open>
  The numbers of the pipeline are epoch milliseconds and relevance scores. They are
  modelled as integers, which JavaScript's doubles represent exactly below \<open>2^53\<close>;
  sums and differences of such integers are exact too. A relevance score with a
  fractional part is outside the model: its sum with a time is rounded. The one special
  value that the code can meet is \<^verbatim>\<open>NaN\<close>, the time of an invalid date.
\<close>

datatype js_number = Num int | NaN

fun js_add :: "js_number \<Rightarrow> js_number \<Rightarrow> js_number" where
  "js_add (Num a) (Num b) = Num (a + b)"
| "js_add _ _ = NaN"

fun js_sub :: "js_number \<Rightarrow> js_number \<Rightarrow> js_number" where
  "js_sub (Num a) (Num b) = Num (a - b)"
| "js_sub _ _ = NaN"

subsection \<open>Search results and payloads\<close>

text \<open>
  A result of the provider. Every member may be missing; \<open>None\<close> is \<^verbatim>\<open>undefined\<close>. The
  member \<open>timestamp\<close> holds the time of the date that the raw member denotes,
  \<^verbatim>\<open>new Date(timestamp).getTime()\<close>, and \<open>None\<close> when the raw member is missing or falsy.
\<close>

record search_result =
  url :: "string option"
  title :: "string option"
  content :: "string option"
  relevance_score :: "int option"
  timestamp :: "js_number option"

record search_data =
  results :: "search_result list"
  answer :: string

text \<open>
  What \<^verbatim>\<open>searchTavily\<close> returns and caches is a \<open>search_data\<close>; what
  \<^verbatim>\<open>generateStudyPlan\<close> returns and caches is a parsed JSON document, of a type \<open>'j\<close>
  that the model leaves open.
\<close>

datatype 'j payload = SearchData search_data | Document 'j

subsection \<open>The TTL cache\<close>

text \<open>
  \<^verbatim>\<open>searchCache\<close> is one \<^verbatim>\<open>Map\<close> shared by both operations. An entry holds the time of
  its insertion and the payload.
\<close>

record 'j cache_entry =
  entry_timestamp :: int
  entry_data :: "'j payload"

type_synonym 'j cache = "string \<rightharpoonup> 'j cache_entry"

definition CACHE_DURATION :: int where
  "CACHE_DURATION = 1000 * 60 * 30"

text \<open>
  The lookup both operations start with:
  \<^verbatim>\<open>const c = searchCache.get(key); if (c && Date.now() - c.timestamp < CACHE_DURATION) return c.data\<close>.
  \<open>None\<close> means that the operation goes on to the providers.
\<close>

definition cache_get :: "'j cache \<Rightarrow> string \<Rightarrow> int \<Rightarrow> 'j payload option" where
  "cache_get cache key now =
     (case cache key of
        None \<Rightarrow> None
      | Some cached \<Rightarrow>
          if now - entry_timestamp cached < CACHE_DURATION then Some (entry_data cached)
          else None)"

text \<open>\<^verbatim>\<open>searchCache.set(key, {timestamp: Date.now(), data: value})\<close>.\<close>

definition cache_set :: "'j cache \<Rightarrow> string \<Rightarrow> int \<Rightarrow> 'j payload \<Rightarrow> 'j cache" where
  "cache_set cache key now v = cache(key \<mapsto> \<lparr>entry_timestamp = now, entry_data = v\<rparr>)"

text \<open>The two cache keys, lines 24 and 126.\<close>

definition searchKey :: "string \<Rightarrow> bool \<Rightarrow> string" where
  "searchKey subject isStudyPlan = trim (toLowerCase (subject @ ''-'' @ string_of_bool isStudyPlan))"

definition planKey :: "string \<Rightarrow> string \<Rightarrow> string" where
  "planKey subject examDate = toLowerCase (''plan-'' @ subject @ ''-'' @ examDate)"

subsection \<open>Errors, requests and the environment\<close>

text \<open>
  A thrown value is an \<^verbatim>\<open>Error\<close> with a name and a message. The code itself throws
  only through the language: reading a member of \<^verbatim>\<open>undefined\<close> and an invalid URL
  are \<^verbatim>\<open>TypeError\<close>s, and \<^verbatim>\<open>JSON.parse\<close> throws a \<^verbatim>\<open>SyntaxError\<close>.
\<close>

datatype js_error = JsError (err_name: string) (err_message: string)

definition TypeError :: "string \<Rightarrow> js_error" where
  "TypeError msg = JsError ''TypeError'' msg"

definition SyntaxError :: "string \<Rightarrow> js_error" where
  "SyntaxError msg = JsError ''SyntaxError'' msg"

text \<open>The body that is posted to \<^verbatim>\<open>https://api.tavily.com/search\<close>.\<close>

record search_request =
  query :: string
  search_depth :: string
  include_answer :: bool
  max_results :: nat
  include_domains :: "string list"

text \<open>
  The decoded answer of the provider. Its \<^verbatim>\<open>results\<close> member is optional: an error
  document of the provider has none.
\<close>

record search_response =
  resp_results :: "search_result list option"

text \<open>What \<^verbatim>\<open>/api/curate\<close> tells the model about one result.\<close>

record resource_summary =
  rs_title :: "string option"
  rs_url :: "string option"
  rs_description :: string
  rs_source :: string
  rs_publishDate :: "js_number option"

text \<open>
  The three prompts are template literals. A prompt is modelled by the values that are
  interpolated into its template, which determine the text.
\<close>

datatype prompt =
    GuidePrompt string
  | PlanPrompt string js_number string string string
  | CuratePrompt string "resource_summary list"

datatype event = ProviderQuery search_request | ModelInvoke prompt

text \<open>
  The environment of one call. \<open>fetch\<close> is the HTTP request to the provider and yields
  the body of the response, \<open>json\<close> is \<^verbatim>\<open>res.json()\<close>, \<open>generateContent\<close> is the model
  call together with \<^verbatim>\<open>result.response.text()\<close>, \<open>JSON_parse\<close> is \<^verbatim>\<open>JSON.parse\<close>
  (\<open>None\<close> when it throws), \<open>date_getTime\<close> is \<^verbatim>\<open>new Date(s).getTime()\<close>,
  \<open>url_hostname\<close> is \<^verbatim>\<open>new URL(s).hostname\<close> (\<open>None\<close> when the URL is invalid) and
  \<open>doc_results\<close> reads the \<^verbatim>\<open>results\<close> member of a parsed document. The three clock
  readings are the \<^verbatim>\<open>Date.now()\<close> of the cache lookup, the \<^verbatim>\<open>new Date()\<close> of the
  days computation and the \<^verbatim>\<open>Date.now()\<close> of the cache write.
\<close>

record 'j env =
  fetch :: "search_request \<Rightarrow> js_error + string"
  json :: "string \<Rightarrow> js_error + search_response"
  generateContent :: "prompt \<Rightarrow> js_error + string"
  JSON_parse :: "string \<Rightarrow> 'j option"
  date_getTime :: "string \<Rightarrow> js_number"
  url_hostname :: "string \<Rightarrow> string option"
  doc_results :: "'j \<Rightarrow> search_result list option"
  now_lookup :: int
  now_days :: int
  now_store :: int

text \<open>\<^verbatim>\<open>fetch(...).then(res => res.json())\<close>.\<close>

definition fetch_json :: "'j env \<Rightarrow> search_request \<Rightarrow> js_error + search_response" where
  "fetch_json env req = (case fetch env req of Inl e \<Rightarrow> Inl e | Inr res \<Rightarrow> json env res)"

text \<open>
  \<^verbatim>\<open>Promise.all\<close> of two promises: fulfilled with both values when both are fulfilled,
  rejected when either is rejected. When both are rejected the reason is that of the
  promise that settles first; the model reports the first in array order, and no theorem
  below depends on which of the two it is.
\<close>

definition promise_all2 :: "js_error + 'a \<Rightarrow> js_error + 'b \<Rightarrow> js_error + 'a \<times> 'b" where
  "promise_all2 p q =
     (case p of
        Inl e \<Rightarrow> Inl e
      | Inr x \<Rightarrow> (case q of Inl e \<Rightarrow> Inl e | Inr y \<Rightarrow> Inr (x, y)))"

text \<open>\<^verbatim>\<open>Array.prototype.filter\<close> and \<^verbatim>\<open>map\<close> with a callback that may throw.\<close>

fun filter_js :: "('a \<Rightarrow> js_error + bool) \<Rightarrow> 'a list \<Rightarrow> js_error + 'a list" where
  "filter_js p [] = Inr []"
| "filter_js p (x # xs) =
     (case p x of
        Inl e \<Rightarrow> Inl e
      | Inr b \<Rightarrow>
          (case filter_js p xs of
             Inl e \<Rightarrow> Inl e
           | Inr ys \<Rightarrow> Inr (if b then x # ys else ys)))"

fun map_js :: "('a \<Rightarrow> js_error + 'b) \<Rightarrow> 'a list \<Rightarrow> js_error + 'b list" where
  "map_js f [] = Inr []"
| "map_js f (x # xs) =
     (case f x of
        Inl e \<Rightarrow> Inl e
      | Inr y \<Rightarrow> (case map_js f xs of Inl e \<Rightarrow> Inl e | Inr ys \<Rightarrow> Inr (y # ys)))"

subsection \<open>searchTavily: fan-out, filter, rank, deduplicate\<close>

definition videoQuery :: "string \<Rightarrow> search_request" where
  "videoQuery subject =
     \<lparr>query = ''best '' @ subject @ '' video courses tutorials'',
      search_depth = ''advanced'', include_answer = False, max_results = 5,
      include_domains = [''youtube.com'', ''coursera.org'', ''udemy.com'']\<rparr>"

definition platformQuery :: "string \<Rightarrow> search_request" where
  "platformQuery subject =
     \<lparr>query = subject @ '' interactive learning platform tutorial'',
      search_depth = ''advanced'', include_answer = False, max_results = 5,
      include_domains =
        [''freecodecamp.org'', ''khanacademy.org'', ''w3schools.com'', ''codecademy.com'']\<rparr>"

text \<open>
  The callback of the filter, lines 79 to 85. The three constants are computed before the
  conjunction, so a result without a title or without a content throws even when another
  test already fails.
\<close>

definition keep_result :: "string \<Rightarrow> search_result \<Rightarrow> js_error + bool" where
  "keep_result subject result =
     (case title result of
        None \<Rightarrow> Inl (TypeError ''title is undefined'')
      | Some t \<Rightarrow>
          (let hasRelevantTitle = includes_js (toLowerCase t) (toLowerCase subject)
           in case content result of
                None \<Rightarrow> Inl (TypeError ''content is undefined'')
              | Some c \<Rightarrow>
                  (let hasSubstantialContent = (length c > 100);
                       isNotAdvertisement = (\<not> includes_js (toLowerCase t) ''sponsored'')
                   in Inr (hasRelevantTitle \<and> hasSubstantialContent \<and> isNotAdvertisement))))"

text \<open>
  \<^verbatim>\<open>[...videoResults.results, ...platformResults.results].filter(...)\<close>: spreading a
  missing \<^verbatim>\<open>results\<close> throws.
\<close>

definition combinedResults ::
  "string \<Rightarrow> search_response \<Rightarrow> search_response \<Rightarrow> js_error + search_result list" where
  "combinedResults subject videoResults platformResults =
     (case resp_results videoResults of
        None \<Rightarrow> Inl (TypeError ''results is not iterable'')
      | Some vs \<Rightarrow>
          (case resp_results platformResults of
             None \<Rightarrow> Inl (TypeError ''results is not iterable'')
           | Some ps \<Rightarrow> filter_js (keep_result subject) (vs @ ps)))"

text \<open>
  The score of the comparator, lines 89 and 90:
  \<^verbatim>\<open>(a.relevance_score || 0) + (a.timestamp ? new Date(a.timestamp).getTime() : 0)\<close>.
  The field \<open>timestamp\<close> of the model holds the time of the date the raw field denotes.
\<close>

definition score :: "search_result \<Rightarrow> js_number" where
  "score a =
     js_add (Num (case relevance_score a of None \<Rightarrow> 0 | Some r \<Rightarrow> r))
            (case timestamp a of None \<Rightarrow> Num 0 | Some t \<Rightarrow> t)"

definition compareFn :: "search_result \<Rightarrow> search_result \<Rightarrow> js_number" where
  "compareFn a b = js_sub (score b) (score a)"

text \<open>
  \<^verbatim>\<open>Array.prototype.sort(compareFn)\<close>. The language requires the sort to be stable and
  reads a comparator value of \<^verbatim>\<open>NaN\<close> as \<open>0\<close>. For a consistent comparator the result
  is then determined, and it is the result of the stable insertion sort below. With
  \<^verbatim>\<open>NaN\<close> scores the comparator is not consistent and the language leaves the order to
  the implementation; the insertion sort is one permitted outcome.
\<close>

fun positive :: "js_number \<Rightarrow> bool" where
  "positive (Num v) = (0 < v)"
| "positive NaN = False"

fun insert_js :: "('a \<Rightarrow> 'a \<Rightarrow> js_number) \<Rightarrow> 'a \<Rightarrow> 'a list \<Rightarrow> 'a list" where
  "insert_js cmp x [] = [x]"
| "insert_js cmp x (y # ys) =
     (if positive (cmp x y) then y # insert_js cmp x ys else x # y # ys)"

definition sort_js :: "('a \<Rightarrow> 'a \<Rightarrow> js_number) \<Rightarrow> 'a list \<Rightarrow> 'a list" where
  "sort_js cmp xs = foldr (insert_js cmp) xs []"

definition sortedResults :: "search_result list \<Rightarrow> search_result list" where
  "sortedResults combined = sort_js compareFn combined"

text \<open>
  A JavaScript \<^verbatim>\<open>Map\<close> keeps its keys in the order of their first insertion; setting a
  key that is present replaces the value and keeps the position. \<^verbatim>\<open>new Map(entries)\<close>
  sets the entries from left to right.
\<close>

fun Map_set :: "('k \<times> 'v) list \<Rightarrow> 'k \<Rightarrow> 'v \<Rightarrow> ('k \<times> 'v) list" where
  "Map_set [] k v = [(k, v)]"
| "Map_set ((k', v') # m) k v =
     (if k' = k then (k', v) # m else (k', v') # Map_set m k v)"

definition new_Map :: "('k \<times> 'v) list \<Rightarrow> ('k \<times> 'v) list" where
  "new_Map entries = foldl (\<lambda>m (k, v). Map_set m k v) [] entries"

definition Map_values :: "('k \<times> 'v) list \<Rightarrow> 'v list" where
  "Map_values m = map snd m"

text \<open>Lines 95 to 97, before and after \<^verbatim>\<open>slice(0, 5)\<close>.\<close>

definition dedupResults :: "search_result list \<Rightarrow> search_result list" where
  "dedupResults ranked = Map_values (new_Map (map (\<lambda>item. (url item, item)) ranked))"

definition uniqueResults :: "search_result list \<Rightarrow> search_result list" where
  "uniqueResults ranked = take 5 (dedupResults ranked)"

definition generateStudyGuide :: "'j env \<Rightarrow> string \<Rightarrow> js_error + string" where
  "generateStudyGuide env subject = generateContent env (GuidePrompt subject)"

text \<open>
  The body of the \<^verbatim>\<open>try\<close> block of \<^verbatim>\<open>searchTavily\<close>. The result is the value returned
  or the exception thrown, the cache afterwards and the outbound requests made. Both
  provider requests are sent before either is awaited.
\<close>

definition searchTavily_try ::
  "'j env \<Rightarrow> 'j cache \<Rightarrow> string \<Rightarrow> bool \<Rightarrow> (js_error + 'j payload) \<times> 'j cache \<times> event list" where
  "searchTavily_try env cache subject isStudyPlan =
     (let cacheKey = searchKey subject isStudyPlan
      in case cache_get cache cacheKey (now_lookup env) of
           Some cached \<Rightarrow> (Inr cached, cache, [])
         | None \<Rightarrow>
             (let sent = [ProviderQuery (videoQuery subject), ProviderQuery (platformQuery subject)]
              in case promise_all2 (fetch_json env (videoQuery subject))
                                   (fetch_json env (platformQuery subject)) of
                   Inl e \<Rightarrow> (Inl e, cache, sent)
                 | Inr (videoResults, platformResults) \<Rightarrow>
                     (case combinedResults subject videoResults platformResults of
                        Inl e \<Rightarrow> (Inl e, cache, sent)
                      | Inr combined \<Rightarrow>
                          (let unique = uniqueResults (sortedResults combined)
                           in if isStudyPlan
                              then (case generateStudyGuide env subject of
                                      Inl e \<Rightarrow>
                                        (Inl e, cache, sent @ [ModelInvoke (GuidePrompt subject)])
                                    | Inr guide \<Rightarrow>
                                        (let searchData = \<lparr>results = unique, answer = guide\<rparr>
                                         in (Inr (SearchData searchData),
                                             cache_set cache cacheKey (now_store env)
                                               (SearchData searchData),
                                             sent @ [ModelInvoke (GuidePrompt subject)])))
                              else (let searchData = \<lparr>results = unique, answer = ''''\<rparr>
                                    in (Inr (SearchData searchData),
                                        cache_set cache cacheKey (now_store env)
                                          (SearchData searchData),
                                        sent))))))"

text \<open>The \<^verbatim>\<open>catch\<close> block, lines 110 to 113: log and return the empty search data.\<close>

definition fallback :: search_data where
  "fallback = \<lparr>results = [], answer = ''''\<rparr>"

definition searchTavily ::
  "'j env \<Rightarrow> 'j cache \<Rightarrow> string \<Rightarrow> bool \<Rightarrow> 'j payload \<times> 'j cache \<times> event list" where
  "searchTavily env cache subject isStudyPlan =
     (case searchTavily_try env cache subject isStudyPlan of
        (Inr searchData, cache', sent) \<Rightarrow> (searchData, cache', sent)
      | (Inl error, cache', sent) \<Rightarrow> (SearchData fallback, cache', sent))"

subsection \<open>generateStudyPlan\<close>

definition curriculumQuery :: "string \<Rightarrow> search_request" where
  "curriculumQuery subject =
     \<lparr>query = subject @ '' curriculum syllabus study guide'',
      search_depth = ''advanced'', include_answer = True, max_results = 4,
      include_domains = [''khanacademy.org'', ''coursera.org'', ''udemy.com'', ''youtube.com'']\<rparr>"

definition resourceQuery :: "string \<Rightarrow> search_request" where
  "resourceQuery subject =
     \<lparr>query = ''best way to study '' @ subject @ '' study schedule'',
      search_depth = ''advanced'', include_answer = True, max_results = 3,
      include_domains =
        [''medium.com'', ''educationcorner.com'', ''goconqr.com'', ''mindtools.com'']\<rparr>"

text \<open>
  Lines 174 to 176:
  \<^verbatim>\<open>Math.ceil((new Date(examDate).getTime() - new Date().getTime()) / (1000 * 3600 * 24))\<close>.
  An invalid exam date has the time \<^verbatim>\<open>NaN\<close>, and so has the result. For the times a
  \<^verbatim>\<open>Date\<close> can hold, the rounded quotient of the doubles is an integer only when the
  exact quotient is one, so the ceiling of the exact quotient is what the code computes.
\<close>

definition daysUntilExam :: "js_number \<Rightarrow> int \<Rightarrow> js_number" where
  "daysUntilExam examTime now =
     (case examTime of
        NaN \<Rightarrow> NaN
      | Num t \<Rightarrow> Num \<lceil>real_of_int (t - now) / (1000 * 3600 * 24)\<rceil>)"

text \<open>\<^verbatim>\<open>search.results.map(r => r.content.substring(0, 300)).join('\n')\<close>.\<close>

definition excerpts :: "search_response \<Rightarrow> js_error + string" where
  "excerpts search =
     (case resp_results search of
        None \<Rightarrow> Inl (TypeError ''results is undefined'')
      | Some rs \<Rightarrow>
          (case map_js (\<lambda>r. case content r of
                               None \<Rightarrow> Inl (TypeError ''content is undefined'')
                             | Some c \<Rightarrow> Inr (substring0 300 c)) rs of
             Inl e \<Rightarrow> Inl e
           | Inr parts \<Rightarrow> Inr (join [CHR 0x0A] parts)))"

text \<open>
  \<^verbatim>\<open>JSON.parse(text.replace(/```json\s*|\s*```/g, '').trim())\<close>, the extraction of the
  document from the answer of the model in both operations.
\<close>

definition parse_answer :: "'j env \<Rightarrow> string \<Rightarrow> js_error + 'j" where
  "parse_answer env text =
     (case JSON_parse env (trim (strip_fences text)) of
        None \<Rightarrow> Inl (SyntaxError ''Unexpected token'')
      | Some document \<Rightarrow> Inr document)"

text \<open>
  \<^verbatim>\<open>generateStudyPlan\<close>, lines 124 to 242. Its \<^verbatim>\<open>catch\<close> block logs and throws the
  error again, so the function is its \<^verbatim>\<open>try\<close> block.
\<close>

definition generateStudyPlan ::
  "'j env \<Rightarrow> 'j cache \<Rightarrow> string \<Rightarrow> string \<Rightarrow> (js_error + 'j payload) \<times> 'j cache \<times> event list" where
  "generateStudyPlan env cache subject examDate =
     (let cacheKey = planKey subject examDate
      in case cache_get cache cacheKey (now_lookup env) of
           Some cached \<Rightarrow> (Inr cached, cache, [])
         | None \<Rightarrow>
             (let sent = [ProviderQuery (curriculumQuery subject),
                          ProviderQuery (resourceQuery subject)]
              in case promise_all2 (fetch_json env (curriculumQuery subject))
                                   (fetch_json env (resourceQuery subject)) of
                   Inl e \<Rightarrow> (Inl e, cache, sent)
                 | Inr (curriculumSearch, resourceSearch) \<Rightarrow>
                     (let days = daysUntilExam (date_getTime env examDate) (now_days env)
                      in case excerpts curriculumSearch of
                           Inl e \<Rightarrow> (Inl e, cache, sent)
                         | Inr curriculumContent \<Rightarrow>
                             (case excerpts resourceSearch of
                                Inl e \<Rightarrow> (Inl e, cache, sent)
                              | Inr studyTips \<Rightarrow>
                                  (let prompt = PlanPrompt subject days curriculumContent
                                                  studyTips examDate
                                   in case generateContent env prompt of
                                        Inl e \<Rightarrow> (Inl e, cache, sent @ [ModelInvoke prompt])
                                      | Inr text \<Rightarrow>
                                          (case parse_answer env text of
                                             Inl e \<Rightarrow> (Inl e, cache, sent @ [ModelInvoke prompt])
                                           | Inr plan \<Rightarrow>
                                               (Inr (Document plan),
                                                cache_set cache cacheKey (now_store env)
                                                  (Document plan),
                                                sent @ [ModelInvoke prompt])))))))"

subsection \<open>The two endpoints\<close>

datatype 'j body = ErrorBody string | JsonBody "'j payload"

datatype 'j response = Response (status: nat) (body: "'j body")

text \<open>\<^verbatim>\<open>POST /api/plan\<close>, lines 245 to 254.\<close>

definition api_plan ::
  "'j env \<Rightarrow> 'j cache \<Rightarrow> string \<Rightarrow> string \<Rightarrow> 'j response \<times> 'j cache \<times> event list" where
  "api_plan env cache subject examDate =
     (case generateStudyPlan env cache subject examDate of
        (Inr plan, cache', sent) \<Rightarrow> (Response 200 (JsonBody plan), cache', sent)
      | (Inl error, cache', sent) \<Rightarrow>
          (Response 500 (ErrorBody ''Failed to generate plan''), cache', sent))"

text \<open>
  \<^verbatim>\<open>searchData.results\<close> in \<^verbatim>\<open>/api/curate\<close>. The cache is shared, so the payload that
  \<^verbatim>\<open>searchTavily\<close> returns on a hit may be a document that \<^verbatim>\<open>generateStudyPlan\<close> stored
  under the same key.
\<close>

definition payload_results :: "'j env \<Rightarrow> 'j payload \<Rightarrow> search_result list option" where
  "payload_results env p =
     (case p of SearchData searchData \<Rightarrow> Some (results searchData)
              | Document d \<Rightarrow> doc_results env d)"

text \<open>The callback of lines 263 to 269.\<close>

definition summary :: "'j env \<Rightarrow> search_result \<Rightarrow> js_error + resource_summary" where
  "summary env result =
     (case content result of
        None \<Rightarrow> Inl (TypeError ''content is undefined'')
      | Some c \<Rightarrow>
          (case url result of
             None \<Rightarrow> Inl (TypeError ''Invalid URL'')
           | Some u \<Rightarrow>
               (case url_hostname env u of
                  None \<Rightarrow> Inl (TypeError ''Invalid URL'')
                | Some host \<Rightarrow>
                    Inr \<lparr>rs_title = title result, rs_url = url result,
                         rs_description = substring0 300 c, rs_source = host,
                         rs_publishDate = timestamp result\<rparr>)))"

definition relevantContent :: "'j env \<Rightarrow> 'j payload \<Rightarrow> js_error + resource_summary list" where
  "relevantContent env searchData =
     (case payload_results env searchData of
        None \<Rightarrow> Inl (TypeError ''results is undefined'')
      | Some rs \<Rightarrow> map_js (summary env) rs)"

text \<open>The \<^verbatim>\<open>try\<close> block of \<^verbatim>\<open>POST /api/curate\<close>, lines 258 to 294.\<close>

definition curate_try ::
  "'j env \<Rightarrow> 'j cache \<Rightarrow> string \<Rightarrow> (js_error + 'j payload) \<times> 'j cache \<times> event list" where
  "curate_try env cache subject =
     (case searchTavily env cache subject False of
        (searchData, cache', sent) \<Rightarrow>
          (case relevantContent env searchData of
             Inl e \<Rightarrow> (Inl e, cache', sent)
           | Inr summaries \<Rightarrow>
               (let prompt = CuratePrompt subject summaries
                in case generateContent env prompt of
                     Inl e \<Rightarrow> (Inl e, cache', sent @ [ModelInvoke prompt])
                   | Inr text \<Rightarrow>
                       (case parse_answer env text of
                          Inl e \<Rightarrow> (Inl e, cache', sent @ [ModelInvoke prompt])
                        | Inr resources \<Rightarrow>
                            (Inr (Document resources), cache', sent @ [ModelInvoke prompt])))))"

text \<open>The endpoint with its \<^verbatim>\<open>catch\<close> block, lines 295 to 302.\<close>

definition api_curate ::
  "'j env \<Rightarrow> 'j cache \<Rightarrow> string \<Rightarrow> 'j response \<times> 'j cache \<times> event list" where
  "api_curate env cache subject =
     (case curate_try env cache subject of
        (Inr resources, cache', sent) \<Rightarrow> (Response 200 (JsonBody resources), cache', sent)
      | (Inl error, cache', sent) \<Rightarrow>
          (if err_name error = ''AbortError''
           then (Response 504 (ErrorBody ''Request timeout''), cache', sent)
           else (Response 500 (ErrorBody ''Failed to curate resources''), cache', sent)))"

subsection \<open>Order of scores\<close>



subsection \<open>Example results and example worlds\<close>

text \<open>
  Concrete inputs on which the theorems below are instantiated. The four Python results
  pass the filter for the subject \<^verbatim>\<open>Python\<close>; the first two share their URL and differ
  in their titles.
\<close>

definition long_text :: string where
  "long_text = replicate 101 (CHR ''x'')"

definition python_a :: search_result where
  "python_a =
     \<lparr>url = Some ''https://www.youtube.com/watch?v=py'', title = Some ''Python course A'',
      content = Some long_text, relevance_score = None, timestamp = None\<rparr>"

definition python_b :: search_result where
  "python_b =
     \<lparr>url = Some ''https://www.youtube.com/watch?v=py'', title = Some ''Python course B'',
      content = Some long_text, relevance_score = None, timestamp = None\<rparr>"

definition python_c :: search_result where
  "python_c =
     \<lparr>url = Some ''https://www.w3schools.com/python'', title = Some ''Python tutorial'',
      content = Some long_text, relevance_score = None, timestamp = None\<rparr>"

definition python_d :: search_result where
  "python_d =
     \<lparr>url = Some ''https://www.codecademy.com/python'', title = Some ''Learn Python 3'',
      content = Some long_text, relevance_score = None, timestamp = None\<rparr>"

definition relevant_old :: search_result where
  "relevant_old =
     \<lparr>url = Some ''https://www.coursera.org/old'', title = Some ''Python basics'',
      content = Some long_text, relevance_score = Some 5, timestamp = Some (Num 1000)\<rparr>"

definition recent :: search_result where
  "recent =
     \<lparr>url = Some ''https://www.udemy.com/new'', title = Some ''Python in a hurry'',
      content = Some long_text, relevance_score = Some 1,
      timestamp = Some (Num 1700000000000)\<rparr>"

text \<open>
  A provider answers with a body; the body \<^verbatim>\<open>three\<close> decodes to three results. A provider
  that is down for the requests selected by \<open>P\<close> rejects them the way \<^verbatim>\<open>fetch\<close> does.
\<close>

definition three_results :: search_response where
  "three_results = \<lparr>resp_results = Some [python_a, python_c, python_d]\<rparr>"

definition three_excerpts :: string where
  "three_excerpts = join [CHR 0x0A] [long_text, long_text, long_text]"

definition decode :: "string \<Rightarrow> js_error + search_response" where
  "decode text =
     (if text = ''three'' then Inr three_results
      else Inl (SyntaxError ''Unexpected token''))"

definition down_when :: "(search_request \<Rightarrow> bool) \<Rightarrow> search_request \<Rightarrow> js_error + string" where
  "down_when P req = (if P req then Inl (JsError ''TypeError'' ''fetch failed'') else Inr ''three'')"

text \<open>
  Three models: one that answers with a fenced JSON document, one that cannot be
  reached, and one that answers with text that is not JSON.
\<close>

definition fenced_answer :: string where
  "fenced_answer = ''```json'' @ [CHR 0x0A] @ ''{}'' @ [CHR 0x0A] @ ''```''"

definition model_fenced :: "prompt \<Rightarrow> js_error + string" where
  "model_fenced p = Inr fenced_answer"

definition model_unreachable :: "prompt \<Rightarrow> js_error + string" where
  "model_unreachable p = Inl (JsError ''GoogleGenerativeAIFetchError'' ''fetch failed'')"

definition model_garbage :: "prompt \<Rightarrow> js_error + string" where
  "model_garbage p = Inr ''I cannot help''"

text \<open>
  An example world. A parsed document is represented by its text, and a text parses when
  it starts with a brace. The only date the example clock knows is ten days after the
  epoch.
\<close>

definition example_env ::
  "(search_request \<Rightarrow> js_error + string) \<Rightarrow> (prompt \<Rightarrow> js_error + string) \<Rightarrow> int \<Rightarrow> string env" where
  "example_env provider model now =
     \<lparr>fetch = provider, json = decode, generateContent = model,
      JSON_parse = (\<lambda>s. if take 1 s = ''{'' then Some s else None),
      date_getTime = (\<lambda>s. if s = ''1970-01-11'' then Num 864000000 else NaN),
      url_hostname =
        (\<lambda>u. if take 8 u = ''https://''
              then Some (takeWhile (\<lambda>c. c \<noteq> CHR ''/'') (drop 8 u)) else None),
      doc_results = (\<lambda>d. None),
      now_lookup = now, now_days = now, now_store = now\<rparr>"

text \<open>
  The example worlds differ in which provider requests fail and in the model. The
  requests whose query starts with \<^verbatim>\<open>best\<close> are the first request of \<^verbatim>\<open>searchTavily\<close>
  and the second request of \<^verbatim>\<open>generateStudyPlan\<close>.
\<close>

definition asks_best :: "search_request \<Rightarrow> bool" where
  "asks_best req = (take 4 (query req) = ''best'')"

definition env_up :: "string env" where
  "env_up = example_env (down_when (\<lambda>req. False)) model_fenced 1000"

definition env_late :: "string env" where
  "env_late = example_env (down_when (\<lambda>req. False)) model_fenced 2000000000"

definition env_partial :: "string env" where
  "env_partial = example_env (down_when asks_best) model_fenced 1000"

definition env_all_down :: "string env" where
  "env_all_down = example_env (down_when (\<lambda>req. True)) model_fenced 60000"

definition env_unreachable :: "string env" where
  "env_unreachable = example_env (down_when (\<lambda>req. False)) model_unreachable 1000"

definition env_garbage :: "string env" where
  "env_garbage = example_env (down_when (\<lambda>req. False)) model_garbage 1000"

text \<open>
  The payload that a first request for the subject \<^verbatim>\<open>Python\<close> stores at time 1000 when
  both providers answer, the cache after that request, and what \<^verbatim>\<open>/api/curate\<close> tells
  the model about the three results.
\<close>

definition first_payload :: search_data where
  "first_payload = \<lparr>results = [python_a, python_c, python_d], answer = ''''\<rparr>"

definition first_cache :: "string cache" where
  "first_cache = cache_set Map.empty ''python-false'' 1000 (SearchData first_payload)"

definition first_summaries :: "resource_summary list" where
  "first_summaries =
     [\<lparr>rs_title = Some ''Python course A'', rs_url = Some ''https://www.youtube.com/watch?v=py'',
       rs_description = long_text, rs_source = ''www.youtube.com'', rs_publishDate = None\<rparr>,
      \<lparr>rs_title = Some ''Python tutorial'', rs_url = Some ''https://www.w3schools.com/python'',
       rs_description = long_text, rs_source = ''www.w3schools.com'', rs_publishDate = None\<rparr>,
      \<lparr>rs_title = Some ''Learn Python 3'', rs_url = Some ''https://www.codecademy.com/python'',
       rs_description = long_text, rs_source = ''www.codecademy.com'', rs_publishDate = None\<rparr>]"

section \<open>Properties\<close>

subsection \<open>Evaluation on the examples\<close>

lemmas js_string_eval = toLowerCase_def toLowerCase_char_def trim_def isWhiteSpace_def
  char_of_def bit_0 string_of_bool_def

lemmas example_results = python_a_def python_b_def python_c_def python_d_def
  relevant_old_def recent_def

lemma toLowerCase_Python: "toLowerCase ''Python'' = ''python''"
  by (simp add: js_string_eval)

lemma keep_python:
  "keep_result ''Python'' python_a = Inr True"
  "keep_result ''Python'' python_b = Inr True"
  "keep_result ''Python'' python_c = Inr True"
  "keep_result ''Python'' python_d = Inr True"
  by (simp_all add: keep_result_def example_results long_text_def js_string_eval)

lemmas example_worlds = env_up_def env_late_def env_partial_def env_all_down_def env_unreachable_def
  env_garbage_def example_env_def down_when_def asks_best_def decode_def three_results_def
  model_fenced_def model_unreachable_def model_garbage_def

lemmas example_queries = videoQuery_def platformQuery_def curriculumQuery_def resourceQuery_def

lemma miss_empty: "cache_get Map.empty key now = None"
  by (simp add: cache_get_def)

lemma substring_long_text: "substring0 300 long_text = long_text"
  by (simp add: substring0_def long_text_def)

lemma excerpts_three:
  "excerpts three_results = Inr three_excerpts"
  by (simp add: excerpts_def three_results_def three_excerpts_def example_results
      substring_long_text)

lemma fetch_json_up:
  "fetch_json (example_env (down_when (\<lambda>req. False)) model now) req = Inr three_results"
  by (simp add: fetch_json_def example_env_def down_when_def decode_def)

lemma parse_fenced:
  "parse_answer (example_env provider model now)
     fenced_answer = Inr ''{}''"
  by (simp add: parse_answer_def example_env_def fenced_answer_def js_string_eval)

lemma parse_garbage:
  "parse_answer (example_env provider model now) ''I cannot help'' =
     Inl (SyntaxError ''Unexpected token'')"
  by (simp add: parse_answer_def example_env_def js_string_eval)

lemma planKey_python: "planKey ''Python'' ''1970-01-11'' = ''plan-python-1970-01-11''"
  by (simp add: planKey_def js_string_eval)

lemma searchKey_python: "searchKey ''Python'' False = ''python-false''"
  by (simp add: searchKey_def js_string_eval)

subsection \<open>The TTL cache\<close>

text \<open>
  C7. The time to live is 30 minutes. For every key, a value stored at time \<open>t0\<close> is
  returned by a lookup at time \<open>now\<close> when \<open>now - t0\<close> is below the time to live, and
  the lookup finds nothing when \<open>now - t0\<close> has reached it. In every cache, a lookup that
  returns a value returns the payload of an entry younger than the time to live, so a
  stale entry is never returned.
\<close>

theorem cache_put_get:
  "CACHE_DURATION = 30 * 60 * 1000 \<and>
   (now - t0 < CACHE_DURATION \<longrightarrow> cache_get (cache_set cache key t0 v) key now = Some v) \<and>
   (CACHE_DURATION \<le> now - t0 \<longrightarrow> cache_get (cache_set cache key t0 v) key now = None) \<and>
   (\<forall>w. cache_get cache key now = Some w \<longrightarrow>
        (\<exists>cached. cache key = Some cached \<and> entry_data cached = w \<and>
                  now - entry_timestamp cached < CACHE_DURATION))"
  by (auto simp: cache_get_def cache_set_def CACHE_DURATION_def split: option.splits if_splits)

text \<open>The theorem at a concrete cache: one millisecond before and exactly at the time to live.\<close>

theorem cache_put_get_witness:
  "cache_get (cache_set (Map.empty :: unit cache) ''python-false'' 0 (SearchData fallback))
     ''python-false'' 1799999 = Some (SearchData fallback) \<and>
   cache_get (cache_set (Map.empty :: unit cache) ''python-false'' 0 (SearchData fallback))
     ''python-false'' 1800000 = None"
  using cache_put_get [of 1799999 0 "Map.empty :: unit cache" "''python-false''" "SearchData fallback"]
        cache_put_get [of 1800000 0 "Map.empty :: unit cache" "''python-false''" "SearchData fallback"]
  by (simp add: CACHE_DURATION_def)

subsection \<open>Cache keys\<close>

text \<open>
  C4. The key of \<^verbatim>\<open>searchTavily\<close> is lower-cased and trimmed after the subject and
  the flag have been joined, so white space after the subject stays inside the key: the
  subjects \<^verbatim>\<open>Python\<close> and \<^verbatim>\<open> python \<close> with the same flag get different keys. The
  key of \<^verbatim>\<open>generateStudyPlan\<close> is not trimmed at all.
\<close>

theorem searchKey_keeps_trailing_space:
  "searchKey ''Python'' False = ''python-false'' \<and>
   searchKey '' python '' False = ''python -false'' \<and>
   searchKey ''Python'' False \<noteq> searchKey '' python '' False \<and>
   planKey ''Python'' ''2030-01-01'' = ''plan-python-2030-01-01'' \<and>
   planKey '' python '' ''2030-01-01'' = ''plan- python -2030-01-01''"
  by (simp add: searchKey_def planKey_def js_string_eval)

subsection \<open>Deduplication\<close>

lemma map_of_Map_set: "map_of (Map_set m k v) = (map_of m)(k \<mapsto> v)"
  by (induction m k v rule: Map_set.induct) auto

lemma keys_Map_set: "fst ` set (Map_set m k v) = insert k (fst ` set m)"
  by (induction m k v rule: Map_set.induct) auto

lemma distinct_Map_set: "distinct (map fst m) \<Longrightarrow> distinct (map fst (Map_set m k v))"
proof (induction m k v rule: Map_set.induct)
  case (1 k v)
  then show ?case by simp
next
  case (2 k' v' m k v)
  then show ?case using keys_Map_set [of m k v] by (auto simp del: keys_Map_set)
qed

lemma values_Map_set: "snd ` set (Map_set m k v) \<subseteq> insert v (snd ` set m)"
  by (induction m k v rule: Map_set.induct) auto

lemma distinct_foldl_Map_set:
  "distinct (map fst m) \<Longrightarrow> distinct (map fst (foldl (\<lambda>m (k, v). Map_set m k v) m es))"
  by (induction es arbitrary: m) (auto simp: distinct_Map_set)

lemma keys_foldl_Map_set:
  "fst ` set (foldl (\<lambda>m (k, v). Map_set m k v) m es) = fst ` set m \<union> fst ` set es"
proof (induction es arbitrary: m)
  case Nil
  then show ?case by simp
next
  case (Cons e es)
  obtain k v where e: "e = (k, v)" by (cases e)
  have "fst ` set (foldl (\<lambda>m (k, v). Map_set m k v) m (e # es)) =
          fst ` set (Map_set m k v) \<union> fst ` set es"
    using Cons.IH [of "Map_set m k v"] by (simp add: e)
  also have "\<dots> = insert k (fst ` set m) \<union> fst ` set es"
    by (simp only: keys_Map_set)
  also have "\<dots> = fst ` set m \<union> fst ` set (e # es)"
    by (simp add: e)
  finally show ?case .
qed

lemma map_of_foldl_Map_set:
  "map_of (foldl (\<lambda>m (k, v). Map_set m k v) m es) = map_of m ++ map_of (rev es)"
proof (induction es arbitrary: m)
  case Nil
  then show ?case by simp
next
  case (Cons e es)
  obtain k v where e: "e = (k, v)" by (cases e)
  have "map_of (foldl (\<lambda>m (k, v). Map_set m k v) m (e # es)) =
          map_of (foldl (\<lambda>m (k, v). Map_set m k v) (Map_set m k v) es)"
    by (simp add: e)
  also have "\<dots> = map_of (Map_set m k v) ++ map_of (rev es)"
    by (rule Cons.IH)
  also have "\<dots> = map_of m ++ map_of (rev (e # es))"
    by (rule ext) (auto simp: e map_of_Map_set map_add_def split: option.splits)
  finally show ?case .
qed

lemma filter_distinct_key:
  "distinct (map f xs) \<Longrightarrow> r \<in> set xs \<Longrightarrow> filter (\<lambda>x. f x = f r) xs = [r]"
proof (induction xs)
  case Nil
  then show ?case by simp
next
  case (Cons x xs)
  show ?case
  proof (cases "x = r")
    case True
    from Cons.prems(1) have "f x \<notin> f ` set xs" by simp
    with True have "\<forall>y \<in> set xs. f y \<noteq> f r" by (metis imageI)
    then have "filter (\<lambda>x. f x = f r) xs = []" by (simp add: filter_empty_conv)
    with True show ?thesis by simp
  next
    case False
    with Cons.prems have "r \<in> set xs" and "f x \<noteq> f r" by auto
    with Cons show ?thesis by simp
  qed
qed

lemma map_of_rev_keyed:
  "map_of (rev (map (\<lambda>r. (f r, r)) xs)) k =
     (if \<exists>r \<in> set xs. f r = k then Some (last (filter (\<lambda>r. f r = k) xs)) else None)"
proof (induction xs rule: rev_induct)
  case Nil
  then show ?case by simp
next
  case (snoc x xs)
  then show ?case by auto
qed

lemma dedupResults_keys: "map url (dedupResults xs) = map fst (new_Map (map (\<lambda>r. (url r, r)) xs))"
proof -
  have inv: "\<forall>(k, v) \<in> set (foldl (\<lambda>m (k, v). Map_set m k v) m (map (\<lambda>r. (url r, r)) xs)). url v = k"
    if "\<forall>(k, v) \<in> set m. url v = k" for m :: "(string option \<times> search_result) list"
    using that
  proof (induction xs arbitrary: m)
    case Nil
    then show ?case by simp
  next
    case (Cons x xs)
    have "\<forall>(k, v) \<in> set (Map_set m (url x) x). url v = k"
      using Cons.prems by (induction m "url x" x rule: Map_set.induct) auto
    then show ?case using Cons.IH by simp
  qed
  have "\<forall>(k, v) \<in> set (new_Map (map (\<lambda>r. (url r, r)) xs)). url v = k"
    unfolding new_Map_def by (rule inv) simp
  then show ?thesis
    by (auto simp: dedupResults_def Map_values_def)
qed

lemma distinct_dedupResults: "distinct (map url (dedupResults xs))"
  by (simp add: dedupResults_keys new_Map_def distinct_foldl_Map_set)

lemma urls_dedupResults: "url ` set (dedupResults xs) = url ` set xs"
proof -
  have "url ` set (dedupResults xs) = set (map url (dedupResults xs))" by simp
  also have "\<dots> = fst ` set (new_Map (map (\<lambda>r. (url r, r)) xs))"
    by (simp only: dedupResults_keys set_map)
  also have "\<dots> = url ` set xs"
    by (force simp: new_Map_def keys_foldl_Map_set)
  finally show ?thesis .
qed

lemma dedupResults_last:
  assumes "r \<in> set (dedupResults xs)"
  shows "r = last (filter (\<lambda>r'. url r' = url r) xs)"
proof -
  let ?m = "new_Map (map (\<lambda>r. (url r, r)) xs)"
  from assms obtain k where kr: "(k, r) \<in> set ?m"
    by (auto simp: dedupResults_def Map_values_def)
  have d: "distinct (map fst ?m)" by (simp add: new_Map_def distinct_foldl_Map_set)
  from kr d have look: "map_of ?m k = Some r" by simp
  have "map_of ?m k = map_of (rev (map (\<lambda>r. (url r, r)) xs)) k"
    by (simp add: new_Map_def map_of_foldl_Map_set)
  with look have *: "map_of (rev (map (\<lambda>r. (url r, r)) xs)) k = Some r" by simp
  then have r: "r = last (filter (\<lambda>r'. url r' = k) xs)" and ex: "\<exists>r' \<in> set xs. url r' = k"
    by (auto simp: map_of_rev_keyed split: if_splits)
  from ex have "filter (\<lambda>r'. url r' = k) xs \<noteq> []" by (auto simp: filter_empty_conv)
  then have "last (filter (\<lambda>r'. url r' = k) xs) \<in> set (filter (\<lambda>r'. url r' = k) xs)"
    by (rule last_in_set)
  with r have "url r = k" by simp
  with r show ?thesis by simp
qed

lemma keys_list_Map_set:
  "map fst (Map_set m k v) = (if k \<in> set (map fst m) then map fst m else map fst m @ [k])"
  by (induction m k v rule: Map_set.induct) auto

lemma new_Map_snoc: "new_Map (es @ [(k, v)]) = Map_set (new_Map es) k v"
  by (simp add: new_Map_def)

lemma keys_list_new_Map: "map fst (new_Map es) = rev (remdups (rev (map fst es)))"
proof (induction es rule: rev_induct)
  case Nil
  then show ?case by (simp add: new_Map_def)
next
  case (snoc e es)
  obtain k v where e: "e = (k, v)" by (cases e)
  have "set (rev (remdups (rev (map fst es)))) = set (map fst es)" by simp
  with snoc show ?case
    by (simp add: e new_Map_snoc keys_list_Map_set del: set_map)
qed




lemma urls_first_positions:
  "map url (dedupResults xs) = rev (remdups (rev (map url xs)))"
  by (simp add: dedupResults_keys keys_list_new_Map comp_def)

text \<open>
  C5, as the code has it. The deduplicated list has one entry for every URL of its input,
  the URLs stand in the order of their first occurrences, and the entry of a URL is the
  last result with that URL in traversal order, not the first. After
  the truncation to five entries every URL still occurs at most once and every entry is
  still the last result of its URL.
\<close>

theorem dedup_keeps_last:
  "distinct (map url (dedupResults ranked)) \<and>
   map url (dedupResults ranked) = rev (remdups (rev (map url ranked))) \<and>
   (\<forall>a \<in> set ranked.
      filter (\<lambda>r. url r = url a) (dedupResults ranked) =
        [last (filter (\<lambda>r. url r = url a) ranked)]) \<and>
   distinct (map url (uniqueResults ranked)) \<and>
   (\<forall>r \<in> set (uniqueResults ranked). r = last (filter (\<lambda>r'. url r' = url r) ranked))"
proof -
  have one: "filter (\<lambda>r. url r = url a) (dedupResults ranked) =
               [last (filter (\<lambda>r. url r = url a) ranked)]"
    if a: "a \<in> set ranked" for a
  proof -
    from a have "url a \<in> url ` set (dedupResults ranked)" by (simp add: urls_dedupResults)
    then obtain r where r: "r \<in> set (dedupResults ranked)" "url r = url a" by auto
    have "filter (\<lambda>r. url r = url a) (dedupResults ranked) = [r]"
      using filter_distinct_key [OF distinct_dedupResults r(1)] r(2) by simp
    moreover have "r = last (filter (\<lambda>r'. url r' = url a) ranked)"
      using dedupResults_last [OF r(1)] r(2) by simp
    ultimately show ?thesis by simp
  qed
  have sub: "set (uniqueResults ranked) \<subseteq> set (dedupResults ranked)"
    by (auto simp: uniqueResults_def dest: in_set_takeD)
  have "distinct (map url (uniqueResults ranked))"
    using distinct_dedupResults [of ranked]
    by (simp add: uniqueResults_def take_map [symmetric] distinct_take)
  with one sub dedupResults_last show ?thesis
    using distinct_dedupResults [of ranked] urls_first_positions [of ranked] by blast
qed

text \<open>The theorem on two results that share their URL: the second one is kept.\<close>

theorem dedup_keeps_last_witness:
  "python_a \<in> set [python_a, python_b] \<and>
   filter (\<lambda>r. url r = url python_a) (dedupResults [python_a, python_b]) = [python_b] \<and>
   python_b \<in> set (uniqueResults [python_a, python_b]) \<and>
   last (filter (\<lambda>r'. url r' = url python_b) [python_a, python_b]) = python_b"
  using dedup_keeps_last [of "[python_a, python_b]"]
  by (simp add: example_results uniqueResults_def dedupResults_def new_Map_def Map_values_def)

text \<open>
  The claim that the first occurrence is kept fails on the same two results, taken
  through the filter, the ranking and the deduplication: both pass the filter, their
  scores are equal, so the stable sort keeps their order, and the output is the second.
\<close>

theorem dedup_first_counterexample:
  "url python_a = url python_b \<and> title python_a \<noteq> title python_b \<and>
   combinedResults ''Python'' \<lparr>resp_results = Some [python_a]\<rparr> \<lparr>resp_results = Some [python_b]\<rparr>
     = Inr [python_a, python_b] \<and>
   uniqueResults (sortedResults [python_a, python_b]) = [python_b] \<and>
   python_b \<noteq> python_a"
  by (simp add: combinedResults_def keep_python)
     (simp add: example_results uniqueResults_def dedupResults_def new_Map_def Map_values_def
        sortedResults_def sort_js_def compareFn_def score_def)

subsection \<open>Ranking\<close>












subsection \<open>Failures in searchTavily and in the fan-out\<close>

lemma fetch_json_Inl:
  "fetch_json env req = Inl e \<longleftrightarrow>
     fetch env req = Inl e \<or> (\<exists>res. fetch env req = Inr res \<and> json env res = Inl e)"
  by (auto simp: fetch_json_def split: sum.splits)

lemma promise_all2_Inl:
  "p = Inl e \<or> q = Inl e \<Longrightarrow> \<exists>e'. promise_all2 p q = Inl e'"
  by (auto simp: promise_all2_def split: sum.splits)

lemma promise_all2_Inr:
  "promise_all2 (Inr x) (Inr y) = Inr (x, y)"
  by (simp add: promise_all2_def)

lemma searchTavily_try_hit:
  "cache_get cache (searchKey subject isStudyPlan) (now_lookup env) = Some cached \<Longrightarrow>
   searchTavily_try env cache subject isStudyPlan = (Inr cached, cache, [])"
  by (simp add: searchTavily_try_def)

lemma searchTavily_try_provider_fails:
  assumes "cache_get cache (searchKey subject isStudyPlan) (now_lookup env) = None"
    and "fetch_json env (videoQuery subject) = Inl e \<or> fetch_json env (platformQuery subject) = Inl e"
  shows "\<exists>e'. searchTavily_try env cache subject isStudyPlan =
           (Inl e', cache, [ProviderQuery (videoQuery subject), ProviderQuery (platformQuery subject)])"
proof -
  from assms(2) obtain e' where
    "promise_all2 (fetch_json env (videoQuery subject)) (fetch_json env (platformQuery subject)) = Inl e'"
    using promise_all2_Inl by blast
  with assms(1) show ?thesis by (simp add: searchTavily_try_def)
qed

lemma searchTavily_try_filter_fails:
  assumes "cache_get cache (searchKey subject isStudyPlan) (now_lookup env) = None"
    and "fetch_json env (videoQuery subject) = Inr v" "fetch_json env (platformQuery subject) = Inr p"
    and "combinedResults subject v p = Inl e"
  shows "searchTavily_try env cache subject isStudyPlan =
           (Inl e, cache, [ProviderQuery (videoQuery subject), ProviderQuery (platformQuery subject)])"
  using assms by (simp add: searchTavily_try_def promise_all2_Inr)

lemma searchTavily_try_guide_fails:
  assumes "cache_get cache (searchKey subject True) (now_lookup env) = None"
    and "fetch_json env (videoQuery subject) = Inr v" "fetch_json env (platformQuery subject) = Inr p"
    and "combinedResults subject v p = Inr combined"
    and "generateStudyGuide env subject = Inl e"
  shows "searchTavily_try env cache subject True =
           (Inl e, cache, [ProviderQuery (videoQuery subject), ProviderQuery (platformQuery subject),
                           ModelInvoke (GuidePrompt subject)])"
  using assms by (simp add: searchTavily_try_def promise_all2_Inr)

lemma searchTavily_try_cache:
  "searchTavily_try env cache subject isStudyPlan = (Inl e, cache', sent) \<Longrightarrow> cache' = cache"
  by (auto simp: searchTavily_try_def Let_def split: option.splits sum.splits prod.splits if_splits)

lemma searchTavily_catch:
  "searchTavily_try env cache subject isStudyPlan = (Inl e, cache', sent) \<Longrightarrow>
   searchTavily env cache subject isStudyPlan = (SearchData fallback, cache, sent)"
  using searchTavily_try_cache [of env cache subject isStudyPlan e cache' sent]
  by (simp add: searchTavily_def)

lemma generateStudyPlan_provider_fails:
  assumes "cache_get cache (planKey subject examDate) (now_lookup env) = None"
    and "fetch_json env (curriculumQuery subject) = Inl e \<or>
         fetch_json env (resourceQuery subject) = Inl e"
  shows "\<exists>e'. generateStudyPlan env cache subject examDate =
           (Inl e', cache, [ProviderQuery (curriculumQuery subject), ProviderQuery (resourceQuery subject)])"
proof -
  from assms(2) obtain e' where
    "promise_all2 (fetch_json env (curriculumQuery subject)) (fetch_json env (resourceQuery subject)) = Inl e'"
    using promise_all2_Inl by blast
  with assms(1) show ?thesis by (simp add: generateStudyPlan_def)
qed

text \<open>
  C1, as the code has it. \<^verbatim>\<open>Promise.all\<close> rejects as soon as one of its promises rejects.
  On a cache miss, if either provider request of \<^verbatim>\<open>searchTavily\<close> fails, the results of the
  other are discarded: the function returns the empty search data, leaves the cache as
  it was and has sent both requests. If either provider request of
  \<^verbatim>\<open>generateStudyPlan\<close> fails, the function throws, with the cache as it was.
\<close>

theorem provider_failure_aborts_stage:
  "(cache_get cache (searchKey subject isStudyPlan) (now_lookup env) = None \<and>
    (fetch_json env (videoQuery subject) = Inl e \<or> fetch_json env (platformQuery subject) = Inl e)
    \<longrightarrow> searchTavily env cache subject isStudyPlan =
          (SearchData fallback, cache,
           [ProviderQuery (videoQuery subject), ProviderQuery (platformQuery subject)])) \<and>
   (cache_get cache (planKey subject examDate) (now_lookup env) = None \<and>
    (fetch_json env (curriculumQuery subject) = Inl e \<or>
     fetch_json env (resourceQuery subject) = Inl e)
    \<longrightarrow> (\<exists>e'. generateStudyPlan env cache subject examDate =
          (Inl e', cache,
           [ProviderQuery (curriculumQuery subject), ProviderQuery (resourceQuery subject)])))"
  using searchTavily_try_provider_fails [of cache subject isStudyPlan env e]
    generateStudyPlan_provider_fails [of cache subject examDate env e]
  by (auto simp: searchTavily_def)

text \<open>
  The theorem in the world where the requests that ask for the best resources fail.
\<close>

theorem provider_failure_aborts_stage_witness:
  "cache_get (Map.empty :: string cache) (searchKey ''Python'' False) (now_lookup env_partial) = None \<and>
   fetch_json env_partial (videoQuery ''Python'') = Inl (JsError ''TypeError'' ''fetch failed'') \<and>
   searchTavily env_partial Map.empty ''Python'' False =
     (SearchData fallback, Map.empty,
      [ProviderQuery (videoQuery ''Python''), ProviderQuery (platformQuery ''Python'')]) \<and>
   cache_get (Map.empty :: string cache) (planKey ''Python'' ''1970-01-11'') (now_lookup env_partial) = None \<and>
   fetch_json env_partial (resourceQuery ''Python'') = Inl (JsError ''TypeError'' ''fetch failed'') \<and>
   isl (fst (generateStudyPlan env_partial Map.empty ''Python'' ''1970-01-11''))"
  using provider_failure_aborts_stage [of "Map.empty :: string cache" "''Python''" False env_partial
      "JsError ''TypeError'' ''fetch failed''" "''1970-01-11''"]
  by (auto simp: miss_empty fetch_json_def example_worlds example_queries)

text \<open>
  The claim fails in that world. The video request fails and the platform request
  returns three results that all pass the filter; \<^verbatim>\<open>searchTavily\<close> returns no result at
  all. In \<^verbatim>\<open>generateStudyPlan\<close> the curriculum request returns three results and the
  study-tips request fails; the endpoint answers with status 500.
\<close>

theorem partial_failure_counterexample:
  "fetch_json env_partial (videoQuery ''Python'') = Inl (JsError ''TypeError'' ''fetch failed'') \<and>
   fetch_json env_partial (platformQuery ''Python'') =
     Inr three_results \<and>
   keep_result ''Python'' python_a = Inr True \<and> keep_result ''Python'' python_c = Inr True \<and>
   keep_result ''Python'' python_d = Inr True \<and>
   fst (searchTavily env_partial Map.empty ''Python'' False) =
     SearchData \<lparr>results = [], answer = ''''\<rparr> \<and>
   fetch_json env_partial (curriculumQuery ''Python'') =
     Inr three_results \<and>
   fst (api_plan env_partial Map.empty ''Python'' ''1970-01-11'') =
     Response 500 (ErrorBody ''Failed to generate plan'')"
  by (simp add: keep_python miss_empty fetch_json_def example_worlds example_queries
      searchTavily_def searchTavily_try_def promise_all2_def api_plan_def
      generateStudyPlan_def fallback_def)

text \<open>
  C9. Whatever the \<^verbatim>\<open>try\<close> block of \<^verbatim>\<open>searchTavily\<close> throws, the function returns the
  empty search data with the cache unchanged. On a cache miss this is what happens when a
  provider request fails, when the decoding of a response fails, when combining and
  filtering the results throws, and, for a study plan, when the synthesis of the study
  guide fails. The function has no other way to end: its result is a payload, never an
  error.
\<close>

theorem searchTavily_never_throws:
  "(\<forall>e cache' sent.
      searchTavily_try env cache subject isStudyPlan = (Inl e, cache', sent) \<longrightarrow>
      searchTavily env cache subject isStudyPlan = (SearchData fallback, cache, sent)) \<and>
   (cache_get cache (searchKey subject isStudyPlan) (now_lookup env) = None \<and>
    (fetch env (videoQuery subject) = Inl e \<or> fetch env (platformQuery subject) = Inl e \<or>
     (\<exists>res. fetch env (videoQuery subject) = Inr res \<and> json env res = Inl e) \<or>
     (\<exists>res. fetch env (platformQuery subject) = Inr res \<and> json env res = Inl e) \<or>
     (\<exists>v p. fetch_json env (videoQuery subject) = Inr v \<and>
            fetch_json env (platformQuery subject) = Inr p \<and>
            (combinedResults subject v p = Inl e \<or>
             isStudyPlan \<and> generateStudyGuide env subject = Inl e)))
    \<longrightarrow> fst (searchTavily env cache subject isStudyPlan) = SearchData fallback \<and>
        fst (snd (searchTavily env cache subject isStudyPlan)) = cache)"
proof -
  have caught: "searchTavily env cache subject isStudyPlan = (SearchData fallback, cache, sent)"
    if "searchTavily_try env cache subject isStudyPlan = (Inl e, cache', sent)" for e cache' sent
    using that by (rule searchTavily_catch)
  have thrown: "\<exists>e' sent. searchTavily_try env cache subject isStudyPlan = (Inl e', cache, sent)"
    if miss: "cache_get cache (searchKey subject isStudyPlan) (now_lookup env) = None"
      and bad: "fetch env (videoQuery subject) = Inl e \<or> fetch env (platformQuery subject) = Inl e \<or>
        (\<exists>res. fetch env (videoQuery subject) = Inr res \<and> json env res = Inl e) \<or>
        (\<exists>res. fetch env (platformQuery subject) = Inr res \<and> json env res = Inl e) \<or>
        (\<exists>v p. fetch_json env (videoQuery subject) = Inr v \<and>
               fetch_json env (platformQuery subject) = Inr p \<and>
               (combinedResults subject v p = Inl e \<or>
                isStudyPlan \<and> generateStudyGuide env subject = Inl e))"
  proof -
    from bad consider
        (request) "fetch_json env (videoQuery subject) = Inl e \<or>
                   fetch_json env (platformQuery subject) = Inl e"
      | (later) v p where "fetch_json env (videoQuery subject) = Inr v"
          "fetch_json env (platformQuery subject) = Inr p"
          "combinedResults subject v p = Inl e \<or>
           isStudyPlan \<and> generateStudyGuide env subject = Inl e"
      by (auto simp: fetch_json_Inl)
    then show ?thesis
    proof cases
      case request
      with miss show ?thesis using searchTavily_try_provider_fails by blast
    next
      case later
      show ?thesis
      proof (cases "combinedResults subject v p")
        case (Inl e2)
        with miss later(1,2) show ?thesis using searchTavily_try_filter_fails by blast
      next
        case (Inr combined)
        with later(3) have "isStudyPlan" and "generateStudyGuide env subject = Inl e" by auto
        with miss later(1,2) Inr show ?thesis
          using searchTavily_try_guide_fails [of cache subject env v p combined e] by auto
      qed
    qed
  qed
  show ?thesis
  proof (intro conjI allI impI)
    fix e cache' sent
    assume "searchTavily_try env cache subject isStudyPlan = (Inl e, cache', sent)"
    then show "searchTavily env cache subject isStudyPlan = (SearchData fallback, cache, sent)"
      by (rule caught)
  next
    assume h: "cache_get cache (searchKey subject isStudyPlan) (now_lookup env) = None \<and>
    (fetch env (videoQuery subject) = Inl e \<or> fetch env (platformQuery subject) = Inl e \<or>
     (\<exists>res. fetch env (videoQuery subject) = Inr res \<and> json env res = Inl e) \<or>
     (\<exists>res. fetch env (platformQuery subject) = Inr res \<and> json env res = Inl e) \<or>
     (\<exists>v p. fetch_json env (videoQuery subject) = Inr v \<and>
            fetch_json env (platformQuery subject) = Inr p \<and>
            (combinedResults subject v p = Inl e \<or>
             isStudyPlan \<and> generateStudyGuide env subject = Inl e)))"
    then obtain e' sent where "searchTavily_try env cache subject isStudyPlan = (Inl e', cache, sent)"
      using thrown by blast
    then have "searchTavily env cache subject isStudyPlan = (SearchData fallback, cache, sent)"
      by (rule caught)
    then show "fst (searchTavily env cache subject isStudyPlan) = SearchData fallback"
      and "fst (snd (searchTavily env cache subject isStudyPlan)) = cache"
      by simp_all
  qed
qed

text \<open>The theorem in the world where the model cannot be reached, for a study plan.\<close>

theorem searchTavily_never_throws_witness:
  "cache_get (Map.empty :: string cache) (searchKey ''Python'' True) (now_lookup env_unreachable) = None \<and>
   fetch_json env_unreachable (videoQuery ''Python'') =
     Inr three_results \<and>
   fetch_json env_unreachable (platformQuery ''Python'') =
     Inr three_results \<and>
   generateStudyGuide env_unreachable ''Python'' =
     Inl (JsError ''GoogleGenerativeAIFetchError'' ''fetch failed'') \<and>
   fst (searchTavily env_unreachable Map.empty ''Python'' True) = SearchData fallback \<and>
   fst (snd (searchTavily env_unreachable Map.empty ''Python'' True)) = Map.empty"
proof -
  have v: "fetch_json env_unreachable (videoQuery ''Python'') =
     Inr three_results"
    by (simp add: fetch_json_def example_worlds example_queries)
  have p: "fetch_json env_unreachable (platformQuery ''Python'') =
     Inr three_results"
    by (simp add: fetch_json_def example_worlds example_queries)
  have g: "generateStudyGuide env_unreachable ''Python'' =
     Inl (JsError ''GoogleGenerativeAIFetchError'' ''fetch failed'')"
    by (simp add: generateStudyGuide_def example_worlds)
  show ?thesis
    using searchTavily_never_throws [of env_unreachable "Map.empty :: string cache" "''Python''" True
        "JsError ''GoogleGenerativeAIFetchError'' ''fetch failed''"] v p g
    by (simp add: miss_empty)
qed

subsection \<open>generateStudyPlan\<close>


lemma daysUntilExam_div:
  "daysUntilExam (Num t) now = Num (- ((now - t) div 86400000))"
proof -
  have "\<lceil>real_of_int (t - now) / real_of_int 86400000\<rceil> = - (- (t - now) div 86400000)"
    by (rule ceiling_divide_eq_div)
  then show ?thesis by (simp add: daysUntilExam_def)
qed

lemma generateStudyPlan_steps:
  assumes "cache_get cache (planKey subject examDate) (now_lookup env) = None"
    and "fetch_json env (curriculumQuery subject) = Inr curriculumSearch"
    and "fetch_json env (resourceQuery subject) = Inr resourceSearch"
    and "excerpts curriculumSearch = Inr curriculumContent"
    and "excerpts resourceSearch = Inr studyTips"
  shows "generateStudyPlan env cache subject examDate =
     (let prompt = PlanPrompt subject (daysUntilExam (date_getTime env examDate) (now_days env))
                     curriculumContent studyTips examDate;
          sent = [ProviderQuery (curriculumQuery subject), ProviderQuery (resourceQuery subject),
                  ModelInvoke prompt]
      in case generateContent env prompt of
           Inl e \<Rightarrow> (Inl e, cache, sent)
         | Inr text \<Rightarrow>
             (case parse_answer env text of
                Inl e \<Rightarrow> (Inl e, cache, sent)
              | Inr plan \<Rightarrow>
                  (Inr (Document plan),
                   cache_set cache (planKey subject examDate) (now_store env) (Document plan),
                   sent)))"
  using assms
  by (simp add: generateStudyPlan_def promise_all2_def Let_def split: sum.splits)

lemma generateStudyPlan_cache:
  "generateStudyPlan env cache subject examDate = (r, cache', sent) \<Longrightarrow>
   (case r of
      Inl e \<Rightarrow> cache' = cache
    | Inr p \<Rightarrow>
        cache' = cache \<or>
        (\<exists>prompt text plan.
            generateContent env prompt = Inr text \<and> parse_answer env text = Inr plan \<and>
            p = Document plan \<and>
            cache' = cache_set cache (planKey subject examDate) (now_store env) (Document plan)))"
  by (auto simp: generateStudyPlan_def Let_def
      split: option.splits sum.splits prod.splits)

text \<open>
  C10. \<^verbatim>\<open>generateStudyPlan\<close> writes the cache only after \<^verbatim>\<open>JSON.parse\<close> has returned.
  Every execution that throws leaves the cache as it was. An execution that changes the
  cache has parsed an answer of the model and has stored exactly that document under the
  key of the request. On a cache miss the function throws, with the cache unchanged, when
  a provider request fails, when the model invocation fails and when the answer does not
  parse.
\<close>

theorem generateStudyPlan_cache_atomic:
  "(\<forall>e cache' sent.
      generateStudyPlan env cache subject examDate = (Inl e, cache', sent) \<longrightarrow> cache' = cache) \<and>
   (\<forall>p cache' sent.
      generateStudyPlan env cache subject examDate = (Inr p, cache', sent) \<and> cache' \<noteq> cache \<longrightarrow>
      (\<exists>prompt text plan.
          generateContent env prompt = Inr text \<and> parse_answer env text = Inr plan \<and>
          p = Document plan \<and>
          cache' = cache_set cache (planKey subject examDate) (now_store env) (Document plan))) \<and>
   (cache_get cache (planKey subject examDate) (now_lookup env) = None \<and>
    (fetch_json env (curriculumQuery subject) = Inl e \<or>
     fetch_json env (resourceQuery subject) = Inl e)
    \<longrightarrow> (\<exists>e' sent. generateStudyPlan env cache subject examDate = (Inl e', cache, sent))) \<and>
   (cache_get cache (planKey subject examDate) (now_lookup env) = None \<and>
    fetch_json env (curriculumQuery subject) = Inr curriculumSearch \<and>
    fetch_json env (resourceQuery subject) = Inr resourceSearch \<and>
    excerpts curriculumSearch = Inr curriculumContent \<and>
    excerpts resourceSearch = Inr studyTips \<and>
    (generateContent env
       (PlanPrompt subject (daysUntilExam (date_getTime env examDate) (now_days env))
          curriculumContent studyTips examDate) = Inl e \<or>
     (\<exists>text. generateContent env
         (PlanPrompt subject (daysUntilExam (date_getTime env examDate) (now_days env))
            curriculumContent studyTips examDate) = Inr text \<and>
       parse_answer env text = Inl e))
    \<longrightarrow> (\<exists>sent. generateStudyPlan env cache subject examDate = (Inl e, cache, sent)))"
proof (intro conjI allI impI)
  fix e cache' sent
  assume "generateStudyPlan env cache subject examDate = (Inl e, cache', sent)"
  then show "cache' = cache" using generateStudyPlan_cache by fastforce
next
  fix p cache' sent
  assume "generateStudyPlan env cache subject examDate = (Inr p, cache', sent) \<and> cache' \<noteq> cache"
  then show "\<exists>prompt text plan.
          generateContent env prompt = Inr text \<and> parse_answer env text = Inr plan \<and>
          p = Document plan \<and>
          cache' = cache_set cache (planKey subject examDate) (now_store env) (Document plan)"
    using generateStudyPlan_cache [of env cache subject examDate "Inr p" cache' sent] by simp
next
  assume "cache_get cache (planKey subject examDate) (now_lookup env) = None \<and>
    (fetch_json env (curriculumQuery subject) = Inl e \<or>
     fetch_json env (resourceQuery subject) = Inl e)"
  then show "\<exists>e' sent. generateStudyPlan env cache subject examDate = (Inl e', cache, sent)"
    using generateStudyPlan_provider_fails [of cache subject examDate env e] by blast
next
  assume h: "cache_get cache (planKey subject examDate) (now_lookup env) = None \<and>
    fetch_json env (curriculumQuery subject) = Inr curriculumSearch \<and>
    fetch_json env (resourceQuery subject) = Inr resourceSearch \<and>
    excerpts curriculumSearch = Inr curriculumContent \<and>
    excerpts resourceSearch = Inr studyTips \<and>
    (generateContent env
       (PlanPrompt subject (daysUntilExam (date_getTime env examDate) (now_days env))
          curriculumContent studyTips examDate) = Inl e \<or>
     (\<exists>text. generateContent env
         (PlanPrompt subject (daysUntilExam (date_getTime env examDate) (now_days env))
            curriculumContent studyTips examDate) = Inr text \<and>
       parse_answer env text = Inl e))"
  then have steps: "generateStudyPlan env cache subject examDate =
     (let prompt = PlanPrompt subject (daysUntilExam (date_getTime env examDate) (now_days env))
                     curriculumContent studyTips examDate;
          sent = [ProviderQuery (curriculumQuery subject), ProviderQuery (resourceQuery subject),
                  ModelInvoke prompt]
      in case generateContent env prompt of
           Inl e \<Rightarrow> (Inl e, cache, sent)
         | Inr text \<Rightarrow>
             (case parse_answer env text of
                Inl e \<Rightarrow> (Inl e, cache, sent)
              | Inr plan \<Rightarrow>
                  (Inr (Document plan),
                   cache_set cache (planKey subject examDate) (now_store env) (Document plan),
                   sent)))"
    using generateStudyPlan_steps by blast
  from h show "\<exists>sent. generateStudyPlan env cache subject examDate = (Inl e, cache, sent)"
    unfolding steps by (auto simp: Let_def)
qed

text \<open>
  The theorem in the world where the model answers with text that is not JSON, and in
  the world where the study-tips request fails.
\<close>

theorem generateStudyPlan_cache_atomic_witness:
  "generateStudyPlan env_garbage Map.empty ''Python'' ''1970-01-11'' =
     (Inl (SyntaxError ''Unexpected token''), Map.empty,
      [ProviderQuery (curriculumQuery ''Python''), ProviderQuery (resourceQuery ''Python''),
       ModelInvoke (PlanPrompt ''Python'' (Num 10)
                      three_excerpts
                      three_excerpts ''1970-01-11'')]) \<and>
   fetch_json env_partial (resourceQuery ''Python'') = Inl (JsError ''TypeError'' ''fetch failed'') \<and>
   isl (fst (generateStudyPlan env_partial Map.empty ''Python'' ''1970-01-11'')) \<and>
   fst (snd (generateStudyPlan env_partial Map.empty ''Python'' ''1970-01-11'')) = Map.empty"
proof -
  have env: "date_getTime env_garbage ''1970-01-11'' = Num 864000000"
    "now_days env_garbage = 1000" "now_lookup env_garbage = 1000"
    "\<And>p. generateContent env_garbage p = Inr ''I cannot help''"
    by (simp_all add: env_garbage_def example_env_def model_garbage_def)
  have d: "daysUntilExam (Num 864000000) 1000 = Num 10"
    by (simp add: daysUntilExam_div)
  have f: "\<And>req. fetch_json env_garbage req = Inr three_results"
    unfolding env_garbage_def by (rule fetch_json_up)
  have p: "parse_answer env_garbage ''I cannot help'' = Inl (SyntaxError ''Unexpected token'')"
    unfolding env_garbage_def by (rule parse_garbage)
  have g: "\<exists>sent. generateStudyPlan env_garbage Map.empty ''Python'' ''1970-01-11'' =
             (Inl (SyntaxError ''Unexpected token''), Map.empty, sent)"
    using generateStudyPlan_cache_atomic [of env_garbage "Map.empty :: string cache" "''Python''"
        "''1970-01-11''" "SyntaxError ''Unexpected token''" three_results three_results
        three_excerpts
        three_excerpts]
      env d f p excerpts_three
    by (simp add: miss_empty)
  have steps: "generateStudyPlan env_garbage Map.empty ''Python'' ''1970-01-11'' =
     (Inl (SyntaxError ''Unexpected token''), Map.empty,
      [ProviderQuery (curriculumQuery ''Python''), ProviderQuery (resourceQuery ''Python''),
       ModelInvoke (PlanPrompt ''Python'' (Num 10)
                      three_excerpts
                      three_excerpts ''1970-01-11'')])"
    using generateStudyPlan_steps [of "Map.empty :: string cache" "''Python''" "''1970-01-11''"
        env_garbage three_results three_results
        three_excerpts
        three_excerpts]
      env d f p excerpts_three
    by (simp add: miss_empty)
  have r: "fetch_json env_partial (resourceQuery ''Python'') = Inl (JsError ''TypeError'' ''fetch failed'')"
    by (simp add: fetch_json_def example_worlds example_queries)
  have "\<exists>e' sent. generateStudyPlan env_partial Map.empty ''Python'' ''1970-01-11'' =
          (Inl e', Map.empty, sent)"
    using generateStudyPlan_cache_atomic [of env_partial "Map.empty :: string cache" "''Python''"
        "''1970-01-11''" "JsError ''TypeError'' ''fetch failed''"] r
    by (simp add: miss_empty)
  then have "isl (fst (generateStudyPlan env_partial Map.empty ''Python'' ''1970-01-11''))"
    and "fst (snd (generateStudyPlan env_partial Map.empty ''Python'' ''1970-01-11'')) = Map.empty"
    by auto
  with g steps r show ?thesis by simp
qed



subsection \<open>The endpoints\<close>

lemma cache_get_live:
  "cache key = Some cached \<Longrightarrow> now - entry_timestamp cached < CACHE_DURATION \<Longrightarrow>
   cache_get cache key now = Some (entry_data cached)"
  by (simp add: cache_get_def)

lemma searchTavily_hit:
  "cache_get cache (searchKey subject isStudyPlan) (now_lookup env) = Some payload \<Longrightarrow>
   searchTavily env cache subject isStudyPlan = (payload, cache, [])"
  by (simp add: searchTavily_def searchTavily_try_hit)

lemma curate_try_steps:
  assumes "searchTavily env cache subject False = (searchData, cache', sent)"
  shows "curate_try env cache subject =
     (case relevantContent env searchData of
        Inl e \<Rightarrow> (Inl e, cache', sent)
      | Inr summaries \<Rightarrow>
          (case generateContent env (CuratePrompt subject summaries) of
             Inl e \<Rightarrow> (Inl e, cache', sent @ [ModelInvoke (CuratePrompt subject summaries)])
           | Inr text \<Rightarrow>
               (case parse_answer env text of
                  Inl e \<Rightarrow> (Inl e, cache', sent @ [ModelInvoke (CuratePrompt subject summaries)])
                | Inr resources \<Rightarrow>
                    (Inr (Document resources), cache',
                     sent @ [ModelInvoke (CuratePrompt subject summaries)]))))"
  using assms by (simp add: curate_try_def Let_def split: sum.splits)

lemma api_curate_effects:
  "snd (api_curate env cache subject) = snd (curate_try env cache subject)"
  by (cases "curate_try env cache subject" rule: prod_cases3)
     (auto simp: api_curate_def split: sum.splits)

text \<open>
  C2, as the code has it. When the cache holds an entry for the key of the request that
  is younger than the time to live, \<^verbatim>\<open>searchTavily\<close> returns its payload without any
  outbound request and leaves the cache as it is. The endpoint \<^verbatim>\<open>/api/curate\<close> then
  builds its prompt from that payload and invokes the model: its outbound requests are
  exactly one model invocation and no provider query (and none at all when building the
  prompt throws). The synthesized resources are not cached.
\<close>

theorem curate_cache_hit:
  "cache (searchKey subject False) = Some cached \<and>
   now_lookup env - entry_timestamp cached < CACHE_DURATION \<longrightarrow>
     searchTavily env cache subject False = (entry_data cached, cache, []) \<and>
     fst (snd (api_curate env cache subject)) = cache \<and>
     (\<forall>summaries. relevantContent env (entry_data cached) = Inr summaries \<longrightarrow>
        snd (snd (api_curate env cache subject)) =
          [ModelInvoke (CuratePrompt subject summaries)]) \<and>
     (\<forall>e. relevantContent env (entry_data cached) = Inl e \<longrightarrow>
        snd (snd (api_curate env cache subject)) = [])"
proof (intro impI)
  assume h: "cache (searchKey subject False) = Some cached \<and>
    now_lookup env - entry_timestamp cached < CACHE_DURATION"
  then have "cache_get cache (searchKey subject False) (now_lookup env) = Some (entry_data cached)"
    by (simp add: cache_get_live)
  then have hit: "searchTavily env cache subject False = (entry_data cached, cache, [])"
    by (rule searchTavily_hit)
  note steps = curate_try_steps [OF hit]
  have "fst (snd (api_curate env cache subject)) = cache"
    unfolding api_curate_effects steps by (simp split: sum.splits)
  moreover have "snd (snd (api_curate env cache subject)) =
      [ModelInvoke (CuratePrompt subject summaries)]"
    if "relevantContent env (entry_data cached) = Inr summaries" for summaries
    unfolding api_curate_effects steps using that by (simp split: sum.splits)
  moreover have "snd (snd (api_curate env cache subject)) = []"
    if "relevantContent env (entry_data cached) = Inl e" for e
    unfolding api_curate_effects steps using that by simp
  ultimately show "searchTavily env cache subject False = (entry_data cached, cache, []) \<and>
     fst (snd (api_curate env cache subject)) = cache \<and>
     (\<forall>summaries. relevantContent env (entry_data cached) = Inr summaries \<longrightarrow>
        snd (snd (api_curate env cache subject)) =
          [ModelInvoke (CuratePrompt subject summaries)]) \<and>
     (\<forall>e. relevantContent env (entry_data cached) = Inl e \<longrightarrow>
        snd (snd (api_curate env cache subject)) = [])"
    using hit by blast
qed

text \<open>
  C3, as the code has it. Every error that \<^verbatim>\<open>generateStudyPlan\<close> throws is answered by
  \<^verbatim>\<open>/api/plan\<close> with the same response, status 500 and the message
  \<^verbatim>\<open>Failed to generate plan\<close>. Every error thrown in \<^verbatim>\<open>/api/curate\<close> is answered with
  status 504 when its name is \<^verbatim>\<open>AbortError\<close> and otherwise with status 500 and the
  message \<^verbatim>\<open>Failed to curate resources\<close>. A failure of the provider requests of
  \<^verbatim>\<open>/api/curate\<close> is no failure of the endpoint: the model is asked about an empty list
  of resources and its parsed answer is returned with status 200.
\<close>

theorem failures_are_generic:
  "(\<forall>e cache' sent.
      generateStudyPlan env cache subject examDate = (Inl e, cache', sent) \<longrightarrow>
      fst (api_plan env cache subject examDate) =
        Response 500 (ErrorBody ''Failed to generate plan'')) \<and>
   (\<forall>e cache' sent.
      curate_try env cache subject = (Inl e, cache', sent) \<longrightarrow>
      fst (api_curate env cache subject) =
        (if err_name e = ''AbortError'' then Response 504 (ErrorBody ''Request timeout'')
         else Response 500 (ErrorBody ''Failed to curate resources''))) \<and>
   (cache_get cache (searchKey subject False) (now_lookup env) = None \<and>
    (fetch_json env (videoQuery subject) = Inl e \<or>
     fetch_json env (platformQuery subject) = Inl e) \<and>
    generateContent env (CuratePrompt subject []) = Inr text \<and>
    parse_answer env text = Inr resources
    \<longrightarrow> api_curate env cache subject =
          (Response 200 (JsonBody (Document resources)), cache,
           [ProviderQuery (videoQuery subject), ProviderQuery (platformQuery subject),
            ModelInvoke (CuratePrompt subject [])]))"
proof (intro conjI allI impI)
  fix e cache' sent
  assume "generateStudyPlan env cache subject examDate = (Inl e, cache', sent)"
  then show "fst (api_plan env cache subject examDate) =
      Response 500 (ErrorBody ''Failed to generate plan'')"
    by (simp add: api_plan_def)
next
  fix e cache' sent
  assume "curate_try env cache subject = (Inl e, cache', sent)"
  then show "fst (api_curate env cache subject) =
      (if err_name e = ''AbortError'' then Response 504 (ErrorBody ''Request timeout'')
       else Response 500 (ErrorBody ''Failed to curate resources''))"
    by (simp add: api_curate_def)
next
  assume h: "cache_get cache (searchKey subject False) (now_lookup env) = None \<and>
    (fetch_json env (videoQuery subject) = Inl e \<or>
     fetch_json env (platformQuery subject) = Inl e) \<and>
    generateContent env (CuratePrompt subject []) = Inr text \<and>
    parse_answer env text = Inr resources"
  then obtain e' where "searchTavily_try env cache subject False =
      (Inl e', cache, [ProviderQuery (videoQuery subject), ProviderQuery (platformQuery subject)])"
    using searchTavily_try_provider_fails [of cache subject False env e] by blast
  then have "searchTavily env cache subject False =
      (SearchData fallback, cache,
       [ProviderQuery (videoQuery subject), ProviderQuery (platformQuery subject)])"
    by (rule searchTavily_catch)
  note steps = curate_try_steps [OF this]
  have "relevantContent env (SearchData fallback) = Inr []"
    by (simp add: relevantContent_def payload_results_def fallback_def)
  with h show "api_curate env cache subject =
      (Response 200 (JsonBody (Document resources)), cache,
       [ProviderQuery (videoQuery subject), ProviderQuery (platformQuery subject),
        ModelInvoke (CuratePrompt subject [])])"
    by (simp add: api_curate_def steps)
qed

text \<open>
  Evaluation of the pipeline on the example worlds. Both providers return the same three
  results; their scores are equal, so the ranking keeps their order, and the
  deduplication leaves one entry for each of the three URLs.
\<close>

lemma sorted_three_twice:
  "sortedResults [python_a, python_c, python_d, python_a, python_c, python_d] =
     [python_a, python_c, python_d, python_a, python_c, python_d]"
  by (simp add: sortedResults_def sort_js_def compareFn_def score_def example_results)

lemma unique_three_twice:
  "uniqueResults [python_a, python_c, python_d, python_a, python_c, python_d] =
     [python_a, python_c, python_d]"
  by (simp add: uniqueResults_def dedupResults_def new_Map_def Map_values_def example_results)

lemma combined_three_twice:
  "combinedResults ''Python'' three_results three_results =
     Inr [python_a, python_c, python_d, python_a, python_c, python_d]"
  by (simp add: combinedResults_def three_results_def keep_python)

lemma searchTavily_up:
  "searchTavily (example_env (down_when (\<lambda>req. False)) model now) Map.empty ''Python'' False =
     (SearchData first_payload,
      cache_set Map.empty ''python-false'' now (SearchData first_payload),
      [ProviderQuery (videoQuery ''Python''), ProviderQuery (platformQuery ''Python'')])"
proof -
  have env: "now_lookup (example_env (down_when (\<lambda>req. False)) model now) = now"
    "now_store (example_env (down_when (\<lambda>req. False)) model now) = now"
    by (simp_all add: example_env_def)
  show ?thesis
    by (simp add: searchTavily_def searchTavily_try_def searchKey_python miss_empty
        fetch_json_up promise_all2_def combined_three_twice sorted_three_twice
        unique_three_twice env first_payload_def Let_def)
qed

lemma relevantContent_first:
  "relevantContent (example_env provider model now) (SearchData first_payload) =
     Inr first_summaries"
  by (simp add: relevantContent_def payload_results_def first_payload_def summary_def
      example_env_def example_results substring_long_text first_summaries_def)

lemma first_cache_entry:
  "first_cache (searchKey ''Python'' False) =
     Some \<lparr>entry_timestamp = 1000, entry_data = SearchData first_payload\<rparr>"
  by (simp add: first_cache_def cache_set_def searchKey_python)

text \<open>
  The theorem on the cache left by a first request, one minute later, in a world whose
  providers are all down.
\<close>

theorem curate_cache_hit_witness:
  "first_cache (searchKey ''Python'' False) =
     Some \<lparr>entry_timestamp = 1000, entry_data = SearchData first_payload\<rparr> \<and>
   now_lookup env_all_down - 1000 < CACHE_DURATION \<and>
   searchTavily env_all_down first_cache ''Python'' False =
     (SearchData first_payload, first_cache, []) \<and>
   fst (snd (api_curate env_all_down first_cache ''Python'')) = first_cache \<and>
   relevantContent env_all_down (SearchData first_payload) = Inr first_summaries \<and>
   snd (snd (api_curate env_all_down first_cache ''Python'')) =
     [ModelInvoke (CuratePrompt ''Python'' first_summaries)]"
proof -
  have now: "now_lookup env_all_down - 1000 < CACHE_DURATION"
    by (simp add: env_all_down_def example_env_def CACHE_DURATION_def)
  have rc: "relevantContent env_all_down (SearchData first_payload) = Inr first_summaries"
    unfolding env_all_down_def by (rule relevantContent_first)
  show ?thesis
    using curate_cache_hit [of first_cache "''Python''"
        "\<lparr>entry_timestamp = 1000, entry_data = SearchData first_payload\<rparr>" env_all_down]
      first_cache_entry now rc
    by simp
qed

text \<open>
  The claim that a second identical request invokes neither the providers nor the model
  fails on two requests for the subject \<^verbatim>\<open>Python\<close>: the first fills the cache, the
  second finds the entry alive, sends no provider query, and still invokes the model and
  answers with what the model returns.
\<close>

theorem curate_resynthesis_counterexample:
  "api_curate env_up Map.empty ''Python'' =
     (Response 200 (JsonBody (Document ''{}'')), first_cache,
      [ProviderQuery (videoQuery ''Python''), ProviderQuery (platformQuery ''Python''),
       ModelInvoke (CuratePrompt ''Python'' first_summaries)]) \<and>
   cache_get first_cache (searchKey ''Python'' False) (now_lookup env_all_down) =
     Some (SearchData first_payload) \<and>
   api_curate env_all_down first_cache ''Python'' =
     (Response 200 (JsonBody (Document ''{}'')), first_cache,
      [ModelInvoke (CuratePrompt ''Python'' first_summaries)])"
proof -
  have first: "searchTavily env_up Map.empty ''Python'' False =
      (SearchData first_payload, first_cache,
       [ProviderQuery (videoQuery ''Python''), ProviderQuery (platformQuery ''Python'')])"
    unfolding env_up_def first_cache_def by (rule searchTavily_up)
  have hit: "cache_get first_cache (searchKey ''Python'' False) (now_lookup env_all_down) =
      Some (SearchData first_payload)"
    by (simp add: cache_get_def first_cache_entry env_all_down_def example_env_def
        CACHE_DURATION_def)
  have second: "searchTavily env_all_down first_cache ''Python'' False =
      (SearchData first_payload, first_cache, [])"
    using hit by (rule searchTavily_hit)
  have rc_up: "relevantContent env_up (SearchData first_payload) = Inr first_summaries"
    unfolding env_up_def by (rule relevantContent_first)
  have rc_down: "relevantContent env_all_down (SearchData first_payload) = Inr first_summaries"
    unfolding env_all_down_def by (rule relevantContent_first)
  have gen: "\<And>p. generateContent env_up p =
        Inr fenced_answer"
      "\<And>p. generateContent env_all_down p =
        Inr fenced_answer"
    by (simp_all add: env_up_def env_all_down_def example_env_def model_fenced_def)
  have parse: "parse_answer env_up fenced_answer = Inr ''{}''"
      "parse_answer env_all_down fenced_answer = Inr ''{}''"
    unfolding env_up_def env_all_down_def by (rule parse_fenced)+
  have one: "api_curate env_up Map.empty ''Python'' =
     (Response 200 (JsonBody (Document ''{}'')), first_cache,
      [ProviderQuery (videoQuery ''Python''), ProviderQuery (platformQuery ''Python''),
       ModelInvoke (CuratePrompt ''Python'' first_summaries)])"
    by (simp add: api_curate_def curate_try_steps [OF first] rc_up gen parse)
  have two: "api_curate env_all_down first_cache ''Python'' =
     (Response 200 (JsonBody (Document ''{}'')), first_cache,
      [ModelInvoke (CuratePrompt ''Python'' first_summaries)])"
    by (simp add: api_curate_def curate_try_steps [OF second] rc_down gen parse)
  from one hit two show ?thesis by simp
qed

lemma generateStudyPlan_up:
  "generateStudyPlan (example_env (down_when (\<lambda>req. False)) model 1000) Map.empty
     ''Python'' ''1970-01-11'' =
   (let prompt = PlanPrompt ''Python'' (Num 10)
                   three_excerpts
                   three_excerpts ''1970-01-11'';
        sent = [ProviderQuery (curriculumQuery ''Python''), ProviderQuery (resourceQuery ''Python''),
                ModelInvoke prompt]
    in case model prompt of
         Inl e \<Rightarrow> (Inl e, Map.empty, sent)
       | Inr text \<Rightarrow>
           (case parse_answer (example_env (down_when (\<lambda>req. False)) model 1000) text of
              Inl e \<Rightarrow> (Inl e, Map.empty, sent)
            | Inr plan \<Rightarrow>
                (Inr (Document plan),
                 cache_set Map.empty ''plan-python-1970-01-11'' 1000 (Document plan),
                 sent)))"
proof -
  have d: "daysUntilExam (Num 864000000) 1000 = Num 10"
    by (simp add: daysUntilExam_div)
  have env: "date_getTime (example_env (down_when (\<lambda>req. False)) model 1000) ''1970-01-11'' =
      Num 864000000"
    "now_days (example_env (down_when (\<lambda>req. False)) model 1000) = 1000"
    "now_store (example_env (down_when (\<lambda>req. False)) model 1000) = 1000"
    "generateContent (example_env (down_when (\<lambda>req. False)) model 1000) = model"
    by (simp_all add: example_env_def)
  show ?thesis
    using generateStudyPlan_steps [of "Map.empty :: string cache" "''Python''" "''1970-01-11''"
        "example_env (down_when (\<lambda>req. False)) model 1000" three_results three_results
        three_excerpts
        three_excerpts]
    by (simp add: miss_empty fetch_json_up excerpts_three env d planKey_python Let_def
        split: sum.splits)
qed

text \<open>
  The claim that the three kinds of failure are distinguishable fails on three worlds:
  one whose model cannot be reached, one whose model answers with text that is not JSON
  and one whose providers are all down. \<^verbatim>\<open>generateStudyPlan\<close> throws three different
  errors and \<^verbatim>\<open>/api/plan\<close> gives the same answer to all three. \<^verbatim>\<open>/api/curate\<close>
  gives the same answer to the unreachable model and to the malformed output, and
  answers with status 200 when all providers are down.
\<close>

theorem failure_kinds_counterexample:
  "fst (generateStudyPlan env_unreachable Map.empty ''Python'' ''1970-01-11'') =
     Inl (JsError ''GoogleGenerativeAIFetchError'' ''fetch failed'') \<and>
   fst (generateStudyPlan env_garbage Map.empty ''Python'' ''1970-01-11'') =
     Inl (SyntaxError ''Unexpected token'') \<and>
   fst (generateStudyPlan env_all_down Map.empty ''Python'' ''1970-01-11'') =
     Inl (JsError ''TypeError'' ''fetch failed'') \<and>
   fst (api_plan env_unreachable Map.empty ''Python'' ''1970-01-11'') =
     Response 500 (ErrorBody ''Failed to generate plan'') \<and>
   fst (api_plan env_garbage Map.empty ''Python'' ''1970-01-11'') =
     Response 500 (ErrorBody ''Failed to generate plan'') \<and>
   fst (api_plan env_all_down Map.empty ''Python'' ''1970-01-11'') =
     Response 500 (ErrorBody ''Failed to generate plan'') \<and>
   fst (curate_try env_unreachable Map.empty ''Python'') =
     Inl (JsError ''GoogleGenerativeAIFetchError'' ''fetch failed'') \<and>
   fst (curate_try env_garbage Map.empty ''Python'') = Inl (SyntaxError ''Unexpected token'') \<and>
   fst (api_curate env_unreachable Map.empty ''Python'') =
     Response 500 (ErrorBody ''Failed to curate resources'') \<and>
   fst (api_curate env_garbage Map.empty ''Python'') =
     Response 500 (ErrorBody ''Failed to curate resources'') \<and>
   fst (api_curate env_all_down Map.empty ''Python'') =
     Response 200 (JsonBody (Document ''{}''))"
proof -
  have plan_unreachable:
    "fst (generateStudyPlan env_unreachable Map.empty ''Python'' ''1970-01-11'') =
       Inl (JsError ''GoogleGenerativeAIFetchError'' ''fetch failed'')"
    unfolding env_unreachable_def generateStudyPlan_up
    by (simp add: model_unreachable_def)
  have plan_garbage:
    "fst (generateStudyPlan env_garbage Map.empty ''Python'' ''1970-01-11'') =
       Inl (SyntaxError ''Unexpected token'')"
    unfolding env_garbage_def generateStudyPlan_up
    by (simp add: model_garbage_def parse_garbage)
  have plan_down:
    "fst (generateStudyPlan env_all_down Map.empty ''Python'' ''1970-01-11'') =
       Inl (JsError ''TypeError'' ''fetch failed'')"
    by (simp add: generateStudyPlan_def miss_empty promise_all2_def fetch_json_def
        env_all_down_def example_env_def down_when_def)
  have api_plan_fst: "fst (api_plan env cache subject examDate) =
      Response 500 (ErrorBody ''Failed to generate plan'')"
    if "fst (generateStudyPlan env cache subject examDate) = Inl e"
    for env :: "string env" and cache subject examDate e
    using that
    by (cases "generateStudyPlan env cache subject examDate" rule: prod_cases3)
       (simp add: api_plan_def)
  have search_unreachable: "searchTavily env_unreachable Map.empty ''Python'' False =
      (SearchData first_payload,
       cache_set Map.empty ''python-false'' 1000 (SearchData first_payload),
       [ProviderQuery (videoQuery ''Python''), ProviderQuery (platformQuery ''Python'')])"
    unfolding env_unreachable_def by (rule searchTavily_up)
  have search_garbage: "searchTavily env_garbage Map.empty ''Python'' False =
      (SearchData first_payload,
       cache_set Map.empty ''python-false'' 1000 (SearchData first_payload),
       [ProviderQuery (videoQuery ''Python''), ProviderQuery (platformQuery ''Python'')])"
    unfolding env_garbage_def by (rule searchTavily_up)
  have rc: "relevantContent env_unreachable (SearchData first_payload) = Inr first_summaries"
    "relevantContent env_garbage (SearchData first_payload) = Inr first_summaries"
    unfolding env_unreachable_def env_garbage_def by (rule relevantContent_first)+
  have gen: "\<And>p. generateContent env_unreachable p =
        Inl (JsError ''GoogleGenerativeAIFetchError'' ''fetch failed'')"
      "\<And>p. generateContent env_garbage p = Inr ''I cannot help''"
      "\<And>p. generateContent env_all_down p =
        Inr fenced_answer"
    by (simp_all add: env_unreachable_def env_garbage_def env_all_down_def example_env_def
        model_unreachable_def model_garbage_def model_fenced_def)
  have parse: "parse_answer env_garbage ''I cannot help'' = Inl (SyntaxError ''Unexpected token'')"
      "parse_answer env_all_down fenced_answer = Inr ''{}''"
    unfolding env_garbage_def env_all_down_def by (rule parse_garbage, rule parse_fenced)
  have curate_unreachable: "curate_try env_unreachable Map.empty ''Python'' =
      (Inl (JsError ''GoogleGenerativeAIFetchError'' ''fetch failed''),
       cache_set Map.empty ''python-false'' 1000 (SearchData first_payload),
       [ProviderQuery (videoQuery ''Python''), ProviderQuery (platformQuery ''Python''),
        ModelInvoke (CuratePrompt ''Python'' first_summaries)])"
    by (simp add: curate_try_steps [OF search_unreachable] rc gen)
  have curate_garbage: "curate_try env_garbage Map.empty ''Python'' =
      (Inl (SyntaxError ''Unexpected token''),
       cache_set Map.empty ''python-false'' 1000 (SearchData first_payload),
       [ProviderQuery (videoQuery ''Python''), ProviderQuery (platformQuery ''Python''),
        ModelInvoke (CuratePrompt ''Python'' first_summaries)])"
    by (simp add: curate_try_steps [OF search_garbage] rc gen parse)
  have down: "fetch_json env_all_down (videoQuery ''Python'') =
      Inl (JsError ''TypeError'' ''fetch failed'')"
    by (simp add: fetch_json_def env_all_down_def example_env_def down_when_def)
  obtain e' where "searchTavily_try env_all_down Map.empty ''Python'' False =
      (Inl e', Map.empty,
       [ProviderQuery (videoQuery ''Python''), ProviderQuery (platformQuery ''Python'')])"
    using searchTavily_try_provider_fails [of "Map.empty :: string cache" "''Python''" False
        env_all_down "JsError ''TypeError'' ''fetch failed''"] down
    by (auto simp: miss_empty)
  then have "searchTavily env_all_down Map.empty ''Python'' False =
      (SearchData fallback, Map.empty,
       [ProviderQuery (videoQuery ''Python''), ProviderQuery (platformQuery ''Python'')])"
    by (rule searchTavily_catch)
  note steps_down = curate_try_steps [OF this]
  have rc_down: "relevantContent env_all_down (SearchData fallback) = Inr []"
    by (simp add: relevantContent_def payload_results_def fallback_def)
  have curate_down: "fst (api_curate env_all_down Map.empty ''Python'') =
      Response 200 (JsonBody (Document ''{}''))"
    by (simp add: api_curate_def steps_down rc_down gen parse)
  show ?thesis
    using plan_unreachable plan_garbage plan_down
      api_plan_fst [OF plan_unreachable] api_plan_fst [OF plan_garbage] api_plan_fst [OF plan_down]
      curate_unreachable curate_garbage curate_down
    by (simp add: api_curate_def SyntaxError_def)
qed

text \<open>
  The theorem in the world whose model answers with text that is not JSON and in the
  world whose providers are all down.
\<close>

theorem failures_are_generic_witness:
  "generateStudyPlan env_garbage Map.empty ''Python'' ''1970-01-11'' =
     (Inl (SyntaxError ''Unexpected token''), Map.empty,
      [ProviderQuery (curriculumQuery ''Python''), ProviderQuery (resourceQuery ''Python''),
       ModelInvoke (PlanPrompt ''Python'' (Num 10)
                      three_excerpts
                      three_excerpts ''1970-01-11'')]) \<and>
   fst (api_plan env_garbage Map.empty ''Python'' ''1970-01-11'') =
     Response 500 (ErrorBody ''Failed to generate plan'') \<and>
   cache_get (Map.empty :: string cache) (searchKey ''Python'' False) (now_lookup env_all_down) = None \<and>
   fetch_json env_all_down (videoQuery ''Python'') = Inl (JsError ''TypeError'' ''fetch failed'') \<and>
   api_curate env_all_down Map.empty ''Python'' =
     (Response 200 (JsonBody (Document ''{}'')), Map.empty,
      [ProviderQuery (videoQuery ''Python''), ProviderQuery (platformQuery ''Python''),
       ModelInvoke (CuratePrompt ''Python'' [])])"
proof -
  have plan: "generateStudyPlan env_garbage Map.empty ''Python'' ''1970-01-11'' =
     (Inl (SyntaxError ''Unexpected token''), Map.empty,
      [ProviderQuery (curriculumQuery ''Python''), ProviderQuery (resourceQuery ''Python''),
       ModelInvoke (PlanPrompt ''Python'' (Num 10)
                      three_excerpts
                      three_excerpts ''1970-01-11'')])"
    unfolding env_garbage_def generateStudyPlan_up
    by (simp add: model_garbage_def parse_garbage)
  have down: "fetch_json env_all_down (videoQuery ''Python'') =
      Inl (JsError ''TypeError'' ''fetch failed'')"
    by (simp add: fetch_json_def env_all_down_def example_env_def down_when_def)
  have gen: "generateContent env_all_down (CuratePrompt ''Python'' []) =
        Inr fenced_answer"
    by (simp add: env_all_down_def example_env_def model_fenced_def)
  have parse:
    "parse_answer env_all_down fenced_answer = Inr ''{}''"
    unfolding env_all_down_def by (rule parse_fenced)
  show ?thesis
    using failures_are_generic [of env_garbage "Map.empty :: string cache" "''Python''"
        "''1970-01-11''"]
      failures_are_generic [of env_all_down "Map.empty :: string cache" "''Python''"
        "''1970-01-11''" "JsError ''TypeError'' ''fetch failed''"
        fenced_answer "''{}''"]
      plan down gen parse
    by (simp add: miss_empty)
qed

end
